theory Spec2Isabelle
  imports Main
begin

section \<open>Go strings and runes\<close>

text \<open>
  A Go \<^verbatim>\<open>string\<close> is a sequence of bytes; \<^typ>\<open>string\<close> (a list of \<^typ>\<open>char\<close>, each a
  byte) models it. \<^verbatim>\<open>strings.Map\<close> and \<^verbatim>\<open>range\<close> walk a string rune by rune, decoding
  UTF-8 as \<^verbatim>\<open>utf8.DecodeRuneInString\<close> does: an invalid or truncated sequence yields
  \<^verbatim>\<open>utf8.RuneError\<close> and consumes one byte.
\<close>

type_synonym rune = int

definition RuneError :: rune where
  "RuneError = 0xFFFD"

text \<open>
  The table \<^verbatim>\<open>first\<close> of package \<^verbatim>\<open>unicode/utf8\<close> for lead bytes of multi-byte
  sequences: the width of the sequence and the accepted range of its second byte.
  \<open>None\<close> is the entry \<^verbatim>\<open>xx\<close> (an invalid lead byte).
\<close>

definition utf8_first :: "nat \<Rightarrow> (nat \<times> nat \<times> nat) option" where
  "utf8_first b =
     (if 0xC2 \<le> b \<and> b \<le> 0xDF then Some (2, 0x80, 0xBF)
      else if b = 0xE0 then Some (3, 0xA0, 0xBF)
      else if 0xE1 \<le> b \<and> b \<le> 0xEC then Some (3, 0x80, 0xBF)
      else if b = 0xED then Some (3, 0x80, 0x9F)
      else if b = 0xEE \<or> b = 0xEF then Some (3, 0x80, 0xBF)
      else if b = 0xF0 then Some (4, 0x90, 0xBF)
      else if 0xF1 \<le> b \<and> b \<le> 0xF3 then Some (4, 0x80, 0xBF)
      else if b = 0xF4 then Some (4, 0x80, 0x8F)
      else None)"

definition is_cont :: "nat \<Rightarrow> bool" where
  "is_cont b = (0x80 \<le> b \<and> b \<le> 0xBF)"

text \<open>\<^verbatim>\<open>utf8.DecodeRuneInString\<close>: the first rune of the string and its width in bytes.\<close>

fun DecodeRuneInString :: "string \<Rightarrow> rune \<times> nat" where
  "DecodeRuneInString [] = (RuneError, 0)"
| "DecodeRuneInString (c0 # cs) =
     (let s0 = (of_char c0 :: nat) in
      if s0 < 0x80 then (int s0, 1)
      else case utf8_first s0 of
        None \<Rightarrow> (RuneError, 1)
      | Some (sz, lo, hi) \<Rightarrow>
          if Suc (length cs) < sz then (RuneError, 1)
          else
            let s1 = (of_char (cs ! 0) :: nat) in
            if s1 < lo \<or> hi < s1 then (RuneError, 1)
            else if sz \<le> 2 then (int ((s0 mod 32) * 64 + s1 mod 64), 2)
            else
              let s2 = (of_char (cs ! 1) :: nat) in
              if \<not> is_cont s2 then (RuneError, 1)
              else if sz \<le> 3
                then (int ((s0 mod 16) * 4096 + (s1 mod 64) * 64 + s2 mod 64), 3)
              else
                let s3 = (of_char (cs ! 2) :: nat) in
                if \<not> is_cont s3 then (RuneError, 1)
                else (int ((s0 mod 8) * 262144 + (s1 mod 64) * 4096
                             + (s2 mod 64) * 64 + s3 mod 64), 4))"

text \<open>The runes a \<^verbatim>\<open>range\<close> loop over the string visits, in order.\<close>

function runes :: "string \<Rightarrow> rune list" where
  "runes [] = []"
| "runes (c # cs) =
     (case DecodeRuneInString (c # cs) of
        (r, w) \<Rightarrow> r # runes (drop (w - 1) cs))"
  by pat_completeness auto
termination
  by (relation "measure length") auto

text \<open>
  \<^verbatim>\<open>utf8.EncodeRune\<close> (through \<^verbatim>\<open>strings.Builder.WriteRune\<close>): the UTF-8 bytes of a
  rune; surrogates and values out of range are written as \<^verbatim>\<open>RuneError\<close>.
\<close>

definition EncodeRune :: "rune \<Rightarrow> string" where
  "EncodeRune r =
     (let n = nat r in
      if r < 0 \<or> 0x10FFFF < r \<or> (0xD800 \<le> r \<and> r \<le> 0xDFFF)
        then [char_of (0xEF::nat), char_of (0xBF::nat), char_of (0xBD::nat)]
      else if n < 0x80 then [char_of n]
      else if n < 0x800 then [char_of (0xC0 + n div 64), char_of (0x80 + n mod 64)]
      else if n < 0x10000
        then [char_of (0xE0 + n div 4096), char_of (0x80 + (n div 64) mod 64),
              char_of (0x80 + n mod 64)]
      else [char_of (0xF0 + n div 262144), char_of (0x80 + (n div 4096) mod 64),
            char_of (0x80 + (n div 64) mod 64), char_of (0x80 + n mod 64)])"

text \<open>
  \<^verbatim>\<open>strings.Map(mapping, s)\<close>: every rune of \<open>s\<close> replaced by its image, a rune whose
  image is negative dropped.
\<close>

definition strings_Map :: "(rune \<Rightarrow> rune) \<Rightarrow> string \<Rightarrow> string" where
  "strings_Map mapping s =
     concat (map (\<lambda>c. let r = mapping c in if r < 0 then [] else EncodeRune r) (runes s))"

section \<open>Certificate authority names\<close>

text \<open>The closure passed to \<^verbatim>\<open>strings.Map\<close> in \<^verbatim>\<open>normalizeCertificateAuthorityName\<close>.\<close>

definition normalizeRune :: "rune \<Rightarrow> rune" where
  "normalizeRune r =
     (if r \<ge> 0x61 \<and> r \<le> 0x7A then r
      else if r \<ge> 0x41 \<and> r \<le> 0x5A then r
      else if r \<ge> 0x30 \<and> r \<le> 0x39 then r
      else if r = 0x2D then r
      else if r = 0x5F then r
      else 0x2D)"

definition normalizeCertificateAuthorityName :: "string \<Rightarrow> string" where
  "normalizeCertificateAuthorityName name = strings_Map normalizeRune name"

text \<open>The character set \<^verbatim>\<open>[a-zA-Z0-9-_]\<close>, on runes.\<close>

definition in_name_charset :: "rune \<Rightarrow> bool" where
  "in_name_charset r =
     ((0x61 \<le> r \<and> r \<le> 0x7A) \<or> (0x41 \<le> r \<and> r \<le> 0x5A) \<or> (0x30 \<le> r \<and> r \<le> 0x39)
        \<or> r = 0x2D \<or> r = 0x5F)"

section \<open>Errors\<close>

text \<open>
  A Go \<^verbatim>\<open>error\<close> value: \<^verbatim>\<open>errors.New\<close>, \<^verbatim>\<open>errors.Errorf\<close> with its format and
  integer argument, \<^verbatim>\<open>errors.Wrap\<close> of a cause, and a run-time panic, which unwinds
  through every caller as an error return does but is not an \<^verbatim>\<open>error\<close> the caller
  receives.
\<close>

datatype error =
    errors_New string
  | errors_Errorf string int
  | errors_Wrap error string
  | runtime_panic string

fun is_panic :: "error \<Rightarrow> bool" where
  "is_panic (runtime_panic m) = True"
| "is_panic (errors_New m) = False"
| "is_panic (errors_Errorf m n) = False"
| "is_panic (errors_Wrap e m) = False"

section \<open>Certificates and the correlation extension\<close>

record pkix_Extension =
  ext_Id :: "nat list"
  ext_Critical :: bool
  ext_Value :: string

text \<open>The fields of \<^verbatim>\<open>x509.Certificate\<close> the adapter reads or writes.\<close>

record x509_Certificate =
  Raw :: string
  Subject_CommonName :: string
  Extensions :: "pkix_Extension list"
  ExtraExtensions :: "pkix_Extension list"

record CertificateAuthorityExtension =
  cae_Type :: int
  cae_CertificateID :: string

text \<open>
  Modelled from the spec: the object identifier of the correlation extension of package
  \<^verbatim>\<open>apiv1\<close>, which is not part of the sources at hand. The spec calls it
  "the well-known object identifier" and gives no value; nothing below depends on it.
\<close>

definition oidStepCertificateAuthority :: "nat list" where
  "oidStepCertificateAuthority = [1, 3, 6, 1, 4, 1, 37476, 9000, 64, 2]"

text \<open>
  Modelled from the spec: the backend identifier \<^verbatim>\<open>apiv1.CloudCAS\<close>, "a small integer
  tag"; its declaration is not part of the sources at hand.
\<close>

definition apiv1_CloudCAS :: int where
  "apiv1_CloudCAS = 1"

definition is_cas_extension :: "pkix_Extension \<Rightarrow> bool" where
  "is_cas_extension ext = (ext_Id ext = oidStepCertificateAuthority)"

text \<open>
  Modelled from the spec: \<^verbatim>\<open>apiv1.CreateCertificateAuthorityExtension\<close>, missing from the
  sources at hand. "encode(backendID, certificateID) produces a deterministic structured
  encoding": the pair is marshalled (\<^verbatim>\<open>asn1.Marshal\<close>, a parameter) and carried as the
  value of an extension with the well-known identifier.
\<close>

definition CreateCertificateAuthorityExtension ::
  "(CertificateAuthorityExtension \<Rightarrow> error + string) \<Rightarrow> int \<Rightarrow> string
     \<Rightarrow> error + pkix_Extension" where
  "CreateCertificateAuthorityExtension marshal typ certificateID =
     (case marshal \<lparr>cae_Type = typ, cae_CertificateID = certificateID\<rparr> of
        Inl e \<Rightarrow> Inl (errors_Wrap e ''error marshaling certificate id extension'')
      | Inr b \<Rightarrow> Inr \<lparr>ext_Id = oidStepCertificateAuthority, ext_Critical = False,
                       ext_Value = b\<rparr>)"

text \<open>
  Modelled from the spec: \<^verbatim>\<open>apiv1.FindCertificateAuthorityExtension\<close>, missing from the
  sources at hand. "findInCertificate(cert) scans a certificate's extension list for the
  well-known object identifier".
\<close>

definition FindCertificateAuthorityExtension :: "x509_Certificate \<Rightarrow> pkix_Extension option" where
  "FindCertificateAuthorityExtension cert = find is_cas_extension (Extensions cert)"

text \<open>
  Modelled from the spec: \<^verbatim>\<open>apiv1.RemoveCertificateAuthorityExtension\<close>, missing from the
  sources at hand. "Any pre-existing instance is stripped", a "remove-if-present step
  that is idempotent", on the extension list of the template.
\<close>

definition RemoveCertificateAuthorityExtension :: "x509_Certificate \<Rightarrow> x509_Certificate" where
  "RemoveCertificateAuthorityExtension cert =
     cert\<lparr>ExtraExtensions := filter (\<lambda>ext. \<not> is_cas_extension ext) (ExtraExtensions cert)\<rparr>"

definition count_cas_extensions :: "x509_Certificate \<Rightarrow> nat" where
  "count_cas_extensions cert = length (filter is_cas_extension (ExtraExtensions cert))"

section \<open>Requests and responses of the CAS interface\<close>

record apiv1_Options =
  opt_CertificateAuthority :: string
  opt_Project :: string
  opt_Location :: string
  opt_IsCreator :: bool
  opt_CredentialsFile :: string

record CreateCertificateRequest =
  cc_Template :: "x509_Certificate option"
  cc_Lifetime :: int
  cc_RequestID :: string

record CreateCertificateResponse =
  cc_Certificate :: x509_Certificate
  cc_CertificateChain :: "x509_Certificate list"

record RenewCertificateRequest =
  rn_Template :: "x509_Certificate option"
  rn_Lifetime :: int
  rn_RequestID :: string

record RenewCertificateResponse =
  rn_Certificate :: x509_Certificate
  rn_CertificateChain :: "x509_Certificate list"

record RevokeCertificateRequest =
  rv_Certificate :: "x509_Certificate option"
  rv_ReasonCode :: int
  rv_RequestID :: string

record RevokeCertificateResponse =
  rv_Certificate' :: x509_Certificate
  rv_CertificateChain :: "x509_Certificate list"

record GetCertificateAuthorityRequest =
  gca_Name :: string

record GetCertificateAuthorityResponse =
  RootCertificate :: x509_Certificate

datatype CertificateAuthorityType = RootCA | IntermediateCA | OtherCA int

fun type_number :: "CertificateAuthorityType \<Rightarrow> int" where
  "type_number RootCA = 1"
| "type_number IntermediateCA = 2"
| "type_number (OtherCA n) = n"

record CreateKeyRequest =
  SignatureAlgorithm :: int
  Bits :: int

record CreateCertificateAuthorityResponse =
  cca_Name' :: string
  cca_Certificate :: x509_Certificate
  cca_CertificateChain :: "x509_Certificate list"

record CreateCertificateAuthorityRequest =
  cca_Name :: string
  cca_Type :: CertificateAuthorityType
  cca_Template :: "x509_Certificate option"
  cca_Lifetime :: int
  cca_Parent :: "CreateCertificateAuthorityResponse option"
  cca_RequestID :: string
  cca_CreateKey :: "CreateKeyRequest option"

section \<open>Messages of the remote API\<close>

text \<open>
  The type variable \<open>'pb\<close> stands for the protocol messages built by helpers that are
  not part of the sources at hand (certificate configuration, subject, reusable
  configuration, key version specification); the adapter only passes them on.
\<close>

datatype pb_RevocationReason =
    REVOCATION_REASON_UNSPECIFIED
  | KEY_COMPROMISE
  | CERTIFICATE_AUTHORITY_COMPROMISE
  | AFFILIATION_CHANGED
  | SUPERSEDED
  | CESSATION_OF_OPERATION
  | CERTIFICATE_HOLD
  | PRIVILEGE_WITHDRAWN
  | ATTRIBUTE_AUTHORITY_COMPROMISE

record pb_Certificate =
  PemCertificate :: string
  PemCertificateChain :: "string list"

record pb_CertificateAuthority =
  pbca_Name :: string
  PemCaCertificates :: "string list"

datatype 'pb pb_CertificateConfig = Certificate_Config 'pb | Certificate_PemCsr string

record 'pb pb_CreateCertificateRequest =
  pcc_Parent :: string
  pcc_CertificateId :: string
  pcc_CertificateConfig :: "'pb pb_CertificateConfig"
  pcc_Lifetime :: int
  pcc_RequestId :: string

record pb_RevokeCertificateRequest =
  prv_Name :: string
  prv_Reason :: pb_RevocationReason
  prv_RequestId :: string

datatype pb_CertificateAuthority_Type = TYPE_UNSPECIFIED | SELF_SIGNED | SUBORDINATE

record 'pb pb_CreateCertificateAuthorityRequest =
  pca_Parent :: string
  pca_CertificateAuthorityId :: string
  pca_RequestId :: string
  pca_Type :: pb_CertificateAuthority_Type
  pca_Subject :: 'pb
  pca_CommonName :: string
  pca_ReusableConfig :: 'pb
  pca_Lifetime :: int
  pca_KeySpec :: 'pb

record pb_ActivateCertificateAuthorityRequest =
  pac_Name :: string
  pac_PemCaCertificate :: string
  pac_PemIssuerChain :: "string list"
  pac_RequestId :: string

text \<open>What the adapter asked of the remote service, in order.\<close>

datatype 'pb call =
    Call_CreateCertificate "'pb pb_CreateCertificateRequest"
  | Call_RevokeCertificate pb_RevokeCertificateRequest
  | Call_GetCertificateAuthority string
  | Call_CreateCertificateAuthority "'pb pb_CreateCertificateAuthorityRequest"
  | Call_FetchCertificateAuthorityCsr string
  | Call_ActivateCertificateAuthority pb_ActivateCertificateAuthorityRequest
  | Call_Wait string

text \<open>
  The interface \<^verbatim>\<open>CertificateAuthorityClient\<close>. An implementation (the real client or a
  stub) answers from a state \<open>'s\<close> of the remote side and returns it updated; the
  deadline of the call's context is part of that behaviour (a call that times out
  returns an error). A long-running operation is a handle (its name) and
  \<^verbatim>\<open>Wait\<close> on it is one more round trip.
\<close>

record ('s, 'pb) CertificateAuthorityClient =
  client_CreateCertificate ::
    "'s \<Rightarrow> 'pb pb_CreateCertificateRequest \<Rightarrow> (error + pb_Certificate) \<times> 's"
  client_RevokeCertificate ::
    "'s \<Rightarrow> pb_RevokeCertificateRequest \<Rightarrow> (error + pb_Certificate) \<times> 's"
  client_GetCertificateAuthority ::
    "'s \<Rightarrow> string \<Rightarrow> (error + pb_CertificateAuthority) \<times> 's"
  client_CreateCertificateAuthority ::
    "'s \<Rightarrow> 'pb pb_CreateCertificateAuthorityRequest \<Rightarrow> (error + string) \<times> 's"
  client_FetchCertificateAuthorityCsr ::
    "'s \<Rightarrow> string \<Rightarrow> (error + string) \<times> 's"
  client_ActivateCertificateAuthority ::
    "'s \<Rightarrow> pb_ActivateCertificateAuthorityRequest \<Rightarrow> (error + string) \<times> 's"
  operation_Wait ::
    "'s \<Rightarrow> string \<Rightarrow> (error + pb_CertificateAuthority) \<times> 's"

record ('s, 'pb) CloudCAS =
  client :: "('s, 'pb) CertificateAuthorityClient"
  certificateAuthority :: string
  project :: string
  location :: string

text \<open>
  Everything outside the adapter that a call can change or consume: the state of the
  remote side, the log of calls made to it, the number of identifiers drawn from the
  random source, and what \<^verbatim>\<open>println\<close> wrote.
\<close>

record ('s, 'pb) world =
  remote :: 's
  calls :: "'pb call list"
  drawn :: nat
  printed :: "string list"

text \<open>
  The library functions and the helpers of the package that are not part of the sources
  at hand, as parameters.
\<close>

record 'pb env =
  pem_Decode :: "string \<Rightarrow> string option"
  x509_ParseCertificate :: "string \<Rightarrow> error + x509_Certificate"
  asn1_Marshal :: "CertificateAuthorityExtension \<Rightarrow> error + string"
  asn1_Unmarshal :: "string \<Rightarrow> error + CertificateAuthorityExtension"
  uuid_NewRandomFromReader :: "nat \<Rightarrow> error + string"
  createCertificateConfig :: "x509_Certificate \<Rightarrow> error + 'pb"
  createSubject :: "x509_Certificate \<Rightarrow> 'pb"
  createReusableConfig :: "x509_Certificate \<Rightarrow> 'pb"
  createKeyVersionSpec :: "int \<Rightarrow> int \<Rightarrow> error + 'pb"

definition invoke ::
  "'pb call \<Rightarrow> ('s \<Rightarrow> 'r \<times> 's) \<Rightarrow> ('s, 'pb) world \<Rightarrow> 'r \<times> ('s, 'pb) world" where
  "invoke ev f w =
     (case f (remote w) of (r, s') \<Rightarrow> (r, w\<lparr>remote := s', calls := calls w @ [ev]\<rparr>))"

section \<open>The adapter\<close>

subsection \<open>Resource names\<close>

text \<open>
  \<^verbatim>\<open>caRegexp\<close> is \<^verbatim>\<open>^projects/[^/]+/locations/[^/]+/certificateAuthorities/[^/]+$\<close>.
  The pattern is anchored at both ends and each class \<^verbatim>\<open>[^/]+\<close> is followed by a
  \<^verbatim>\<open>/\<close> or by the end of the text, so it is matched from left to right without
  backtracking: a literal is a prefix, a class is the longest run of bytes other than
  \<^verbatim>\<open>/\<close> and must not be empty.
\<close>

fun match_literal :: "string \<Rightarrow> string \<Rightarrow> string option" where
  "match_literal [] s = Some s"
| "match_literal (p # ps) [] = None"
| "match_literal (p # ps) (c # cs) = (if p = c then match_literal ps cs else None)"

definition match_segment :: "string \<Rightarrow> string option" where
  "match_segment s =
     (if takeWhile (\<lambda>c. c \<noteq> CHR ''/'') s = [] then None
      else Some (dropWhile (\<lambda>c. c \<noteq> CHR ''/'') s))"

definition caRegexp_MatchString :: "string \<Rightarrow> bool" where
  "caRegexp_MatchString s =
     (case match_literal ''projects/'' s of None \<Rightarrow> False | Some s1 \<Rightarrow>
      case match_segment s1 of None \<Rightarrow> False | Some s2 \<Rightarrow>
      case match_literal ''/locations/'' s2 of None \<Rightarrow> False | Some s3 \<Rightarrow>
      case match_segment s3 of None \<Rightarrow> False | Some s4 \<Rightarrow>
      case match_literal ''/certificateAuthorities/'' s4 of None \<Rightarrow> False | Some s5 \<Rightarrow>
      case match_segment s5 of None \<Rightarrow> False | Some s6 \<Rightarrow> s6 = [])"

text \<open>\<^verbatim>\<open>strings.Split(s, "/")\<close>, for a separator of one byte.\<close>

fun strings_Split :: "string \<Rightarrow> char \<Rightarrow> string list" where
  "strings_Split [] sep = [[]]"
| "strings_Split (c # cs) sep =
     (if c = sep then [] # strings_Split cs sep
      else case strings_Split cs sep of
             [] \<Rightarrow> [[c]]
           | x # xs \<Rightarrow> (c # x) # xs)"

subsection \<open>Construction\<close>

text \<open>
  \<^verbatim>\<open>New\<close>. The function variable \<^verbatim>\<open>newCertificateAuthorityClient\<close> is a parameter.
\<close>

definition New ::
  "(string \<Rightarrow> error + ('s, 'pb) CertificateAuthorityClient) \<Rightarrow> apiv1_Options
     \<Rightarrow> error + ('s, 'pb) CloudCAS" where
  "New newCertificateAuthorityClient opts =
     (let checked =
        (if opt_IsCreator opts then
           (if opt_Project opts = [] then
              Inl (errors_New ''cloudCAS 'project' cannot be empty'')
            else if opt_Location opts = [] then
              Inl (errors_New ''cloudCAS 'location' cannot be empty'')
            else Inr opts)
         else
           (if opt_CertificateAuthority opts = [] then
              Inl (errors_New ''cloudCAS 'certificateAuthority' cannot be empty'')
            else if \<not> caRegexp_MatchString (opt_CertificateAuthority opts) then
              Inl (errors_New
                ''cloudCAS 'certificateAuthority' is not valid certificate authority resource'')
            else
              (let parts = strings_Split (opt_CertificateAuthority opts) (CHR ''/'') in
               if length parts = 6 then
                 (let opts1 = (if opt_Project opts = []
                               then opts\<lparr>opt_Project := parts ! 1\<rparr> else opts);
                      opts2 = (if opt_Location opts1 = []
                               then opts1\<lparr>opt_Location := parts ! 3\<rparr> else opts1)
                  in Inr opts2)
               else Inr opts)))
      in case checked of
           Inl e \<Rightarrow> Inl e
         | Inr opts' \<Rightarrow>
             (case newCertificateAuthorityClient (opt_CredentialsFile opts') of
                Inl e \<Rightarrow> Inl e
              | Inr cl \<Rightarrow>
                  Inr \<lparr>client = cl,
                       certificateAuthority = opt_CertificateAuthority opts',
                       project = opt_Project opts',
                       location = opt_Location opts'\<rparr>))"

subsection \<open>Identifiers and PEM decoding\<close>

definition createCertificateID ::
  "'pb env \<Rightarrow> ('s, 'pb) world \<Rightarrow> (error + string) \<times> ('s, 'pb) world" where
  "createCertificateID env w =
     (case uuid_NewRandomFromReader env (drawn w) of
        Inl e \<Rightarrow> (Inl (errors_Wrap e ''error creating certificate id''),
                  w\<lparr>drawn := Suc (drawn w)\<rparr>)
      | Inr uid \<Rightarrow> (Inr uid, w\<lparr>drawn := Suc (drawn w)\<rparr>))"

definition parseCertificate :: "'pb env \<Rightarrow> string \<Rightarrow> error + x509_Certificate" where
  "parseCertificate env pemCert =
     (case pem_Decode env pemCert of
        None \<Rightarrow> Inl (errors_New ''error decoding certificate: not a valid PEM encoded block'')
      | Some block \<Rightarrow>
          (case x509_ParseCertificate env block of
             Inl e \<Rightarrow> Inl (errors_Wrap e ''error parsing certificate'')
           | Inr cert \<Rightarrow> Inr cert))"

text \<open>
  The loop that fills \<^verbatim>\<open>chain[i]\<close> with \<^verbatim>\<open>parseCertificate(pemChain[i])\<close> and returns at the
  first entry that does not parse.
\<close>

fun parseCertificates :: "'pb env \<Rightarrow> string list \<Rightarrow> error + x509_Certificate list" where
  "parseCertificates env [] = Inr []"
| "parseCertificates env (p # ps) =
     (case parseCertificate env p of
        Inl e \<Rightarrow> Inl e
      | Inr c \<Rightarrow>
          (case parseCertificates env ps of
             Inl e \<Rightarrow> Inl e
           | Inr cs \<Rightarrow> Inr (c # cs)))"

text \<open>
  \<^verbatim>\<open>getCertificateAndChain\<close>. The slice expression
  \<^verbatim>\<open>certpb.PemCertificateChain[:len(certpb.PemCertificateChain)-1]\<close> has the bound \<open>-1\<close>
  on an empty chain, where Go panics.
\<close>

definition getCertificateAndChain ::
  "'pb env \<Rightarrow> pb_Certificate \<Rightarrow> error + (x509_Certificate \<times> x509_Certificate list)" where
  "getCertificateAndChain env certpb =
     (case parseCertificate env (PemCertificate certpb) of
        Inl e \<Rightarrow> Inl e
      | Inr cert \<Rightarrow>
          if length (PemCertificateChain certpb) = 0
          then Inl (runtime_panic ''slice bounds out of range [:-1]'')
          else
            (let pemChain = take (length (PemCertificateChain certpb) - 1)
                                 (PemCertificateChain certpb)
             in case parseCertificates env pemChain of
                  Inl e \<Rightarrow> Inl e
                | Inr chain \<Rightarrow> Inr (cert, chain)))"

subsection \<open>Revocation reasons\<close>

definition revocationCodeMap :: "int \<rightharpoonup> pb_RevocationReason" where
  "revocationCodeMap = map_of
     [(0, REVOCATION_REASON_UNSPECIFIED),
      (1, KEY_COMPROMISE),
      (2, CERTIFICATE_AUTHORITY_COMPROMISE),
      (3, AFFILIATION_CHANGED),
      (4, SUPERSEDED),
      (5, CESSATION_OF_OPERATION),
      (6, CERTIFICATE_HOLD),
      (9, PRIVILEGE_WITHDRAWN),
      (10, ATTRIBUTE_AUTHORITY_COMPROMISE)]"

subsection \<open>Operations\<close>

text \<open>
  Every operation takes the world and returns it with its result. An operation that
  writes to the template it was given (a pointer in the source) also returns the
  template as the caller sees it afterwards.
\<close>

definition GetCertificateAuthority ::
  "'pb env \<Rightarrow> ('s, 'pb) CloudCAS \<Rightarrow> GetCertificateAuthorityRequest \<Rightarrow> ('s, 'pb) world
     \<Rightarrow> (error + GetCertificateAuthorityResponse) \<times> ('s, 'pb) world" where
  "GetCertificateAuthority env c req w =
     (let name = (if gca_Name req = [] then certificateAuthority c else gca_Name req) in
      case invoke (Call_GetCertificateAuthority name)
             (\<lambda>s. client_GetCertificateAuthority (client c) s name) w of
        (Inl e, w1) \<Rightarrow>
          (Inl (errors_Wrap e ''cloudCAS GetCertificateAuthority failed''),
           w1\<lparr>printed := printed w1 @ [name]\<rparr>)
      | (Inr resp, w1) \<Rightarrow>
          if length (PemCaCertificates resp) = 0 then
            (Inl (errors_New
               ''cloudCAS GetCertificateAuthority: PemCACertificate should not be empty''), w1)
          else
            (case parseCertificate env
                    (PemCaCertificates resp ! (length (PemCaCertificates resp) - 1)) of
               Inl e \<Rightarrow> (Inl e, w1)
             | Inr root \<Rightarrow> (Inr \<lparr>RootCertificate = root\<rparr>, w1)))"

definition createCertificate ::
  "'pb env \<Rightarrow> ('s, 'pb) CloudCAS \<Rightarrow> x509_Certificate \<Rightarrow> int \<Rightarrow> string \<Rightarrow> ('s, 'pb) world
     \<Rightarrow> (error + (x509_Certificate \<times> x509_Certificate list)) \<times> x509_Certificate
         \<times> ('s, 'pb) world" where
  "createCertificate env c tpl lifetime requestID w =
     (let tpl1 = RemoveCertificateAuthorityExtension tpl in
      case createCertificateID env w of
        (Inl e, w1) \<Rightarrow> (Inl e, tpl1, w1)
      | (Inr uid, w1) \<Rightarrow>
          (case CreateCertificateAuthorityExtension (asn1_Marshal env) apiv1_CloudCAS uid of
             Inl e \<Rightarrow> (Inl e, tpl1, w1)
           | Inr casExtension \<Rightarrow>
               (let tpl2 = tpl1\<lparr>ExtraExtensions := ExtraExtensions tpl1 @ [casExtension]\<rparr> in
                case createCertificateConfig env tpl2 of
                  Inl e \<Rightarrow> (Inl e, tpl2, w1)
                | Inr certConfig \<Rightarrow>
                    (let pbReq = \<lparr>pcc_Parent = certificateAuthority c,
                                  pcc_CertificateId = uid,
                                  pcc_CertificateConfig = Certificate_Config certConfig,
                                  pcc_Lifetime = lifetime,
                                  pcc_RequestId = requestID\<rparr> in
                     case invoke (Call_CreateCertificate pbReq)
                            (\<lambda>s. client_CreateCertificate (client c) s pbReq) w1 of
                       (Inl e, w2) \<Rightarrow>
                         (Inl (errors_Wrap e ''cloudCAS CreateCertificate failed''), tpl2, w2)
                     | (Inr cert, w2) \<Rightarrow> (getCertificateAndChain env cert, tpl2, w2)))))"

definition CreateCertificate ::
  "'pb env \<Rightarrow> ('s, 'pb) CloudCAS \<Rightarrow> CreateCertificateRequest \<Rightarrow> ('s, 'pb) world
     \<Rightarrow> (error + CreateCertificateResponse) \<times> x509_Certificate option \<times> ('s, 'pb) world" where
  "CreateCertificate env c req w =
     (case cc_Template req of
        None \<Rightarrow> (Inl (errors_New ''createCertificateRequest `template` cannot be nil''), None, w)
      | Some tpl \<Rightarrow>
          if cc_Lifetime req = 0 then
            (Inl (errors_New ''createCertificateRequest `lifetime` cannot be 0''), Some tpl, w)
          else
            (case createCertificate env c tpl (cc_Lifetime req) (cc_RequestID req) w of
               (Inl e, tpl', w') \<Rightarrow> (Inl e, Some tpl', w')
             | (Inr (cert, chain), tpl', w') \<Rightarrow>
                 (Inr \<lparr>cc_Certificate = cert, cc_CertificateChain = chain\<rparr>, Some tpl', w')))"

definition RenewCertificate ::
  "'pb env \<Rightarrow> ('s, 'pb) CloudCAS \<Rightarrow> RenewCertificateRequest \<Rightarrow> ('s, 'pb) world
     \<Rightarrow> (error + RenewCertificateResponse) \<times> x509_Certificate option \<times> ('s, 'pb) world" where
  "RenewCertificate env c req w =
     (case rn_Template req of
        None \<Rightarrow> (Inl (errors_New ''renewCertificateRequest `template` cannot be nil''), None, w)
      | Some tpl \<Rightarrow>
          if rn_Lifetime req = 0 then
            (Inl (errors_New ''renewCertificateRequest `lifetime` cannot be 0''), Some tpl, w)
          else
            (case createCertificate env c tpl (rn_Lifetime req) (rn_RequestID req) w of
               (Inl e, tpl', w') \<Rightarrow> (Inl e, Some tpl', w')
             | (Inr (cert, chain), tpl', w') \<Rightarrow>
                 (Inr \<lparr>rn_Certificate = cert, rn_CertificateChain = chain\<rparr>, Some tpl', w')))"

definition RevokeCertificate ::
  "'pb env \<Rightarrow> ('s, 'pb) CloudCAS \<Rightarrow> RevokeCertificateRequest \<Rightarrow> ('s, 'pb) world
     \<Rightarrow> (error + RevokeCertificateResponse) \<times> ('s, 'pb) world" where
  "RevokeCertificate env c req w =
     (case revocationCodeMap (rv_ReasonCode req) of
        None \<Rightarrow>
          (Inl (errors_Errorf ''revokeCertificate 'reasonCode=%d' is invalid or not supported''
                  (rv_ReasonCode req)), w)
      | Some reason \<Rightarrow>
          (case rv_Certificate req of
             None \<Rightarrow>
               (Inl (errors_New ''revokeCertificateRequest `certificate` cannot be nil''), w)
           | Some crt \<Rightarrow>
               (case FindCertificateAuthorityExtension crt of
                  None \<Rightarrow>
                    (Inl (errors_New
                       ''error revoking certificate: certificate authority extension was not found''),
                     w)
                | Some ext \<Rightarrow>
                    (case asn1_Unmarshal env (ext_Value ext) of
                       Inl e \<Rightarrow>
                         (Inl (errors_Wrap e
                            ''error unmarshaling certificate authority extension''), w)
                     | Inr cae \<Rightarrow>
                         (let pbReq = \<lparr>prv_Name = certificateAuthority c @ ''/certificates/''
                                                     @ cae_CertificateID cae,
                                       prv_Reason = reason,
                                       prv_RequestId = rv_RequestID req\<rparr> in
                          case invoke (Call_RevokeCertificate pbReq)
                                 (\<lambda>s. client_RevokeCertificate (client c) s pbReq) w of
                            (Inl e, w1) \<Rightarrow>
                              (Inl (errors_Wrap e ''cloudCAS RevokeCertificate failed''), w1)
                          | (Inr certpb, w1) \<Rightarrow>
                              (case getCertificateAndChain env certpb of
                                 Inl e \<Rightarrow> (Inl e, w1)
                               | Inr (cert, chain) \<Rightarrow>
                                   (Inr \<lparr>rv_Certificate' = cert,
                                         rv_CertificateChain = chain\<rparr>, w1)))))))"

text \<open>
  \<^verbatim>\<open>signIntermediateCA\<close>: fetch the request of the new authority, have the parent sign
  it, activate the authority and wait. \<^verbatim>\<open>req.Parent.Name\<close> on a nil parent is a nil
  dereference; \<^verbatim>\<open>CreateCertificateAuthority\<close> has excluded it before.
\<close>

definition signIntermediateCA ::
  "'pb env \<Rightarrow> ('s, 'pb) CloudCAS \<Rightarrow> string \<Rightarrow> CreateCertificateAuthorityRequest
     \<Rightarrow> ('s, 'pb) world \<Rightarrow> (error + pb_CertificateAuthority) \<times> ('s, 'pb) world" where
  "signIntermediateCA env c name req w =
     (case createCertificateID env w of
        (Inl e, w1) \<Rightarrow> (Inl e, w1)
      | (Inr uid, w1) \<Rightarrow>
          (case invoke (Call_FetchCertificateAuthorityCsr name)
                  (\<lambda>s. client_FetchCertificateAuthorityCsr (client c) s name) w1 of
             (Inl e, w2) \<Rightarrow>
               (Inl (errors_Wrap e ''cloudCAS FetchCertificateAuthorityCsr failed''), w2)
           | (Inr csr, w2) \<Rightarrow>
               (case cca_Parent req of
                  None \<Rightarrow>
                    (Inl (runtime_panic ''invalid memory address or nil pointer dereference''),
                     w2)
                | Some parent \<Rightarrow>
                    (let signReq = \<lparr>pcc_Parent = cca_Name' parent,
                                    pcc_CertificateId = uid,
                                    pcc_CertificateConfig = Certificate_PemCsr csr,
                                    pcc_Lifetime = cca_Lifetime req,
                                    pcc_RequestId = cca_RequestID req\<rparr> in
                     case invoke (Call_CreateCertificate signReq)
                            (\<lambda>s. client_CreateCertificate (client c) s signReq) w2 of
                       (Inl e, w3) \<Rightarrow>
                         (Inl (errors_Wrap e ''cloudCAS CreateCertificate failed''), w3)
                     | (Inr sign, w3) \<Rightarrow>
                         (let actReq = \<lparr>pac_Name = name,
                                        pac_PemCaCertificate = PemCertificate sign,
                                        pac_PemIssuerChain = PemCertificateChain sign,
                                        pac_RequestId = cca_RequestID req\<rparr> in
                          case invoke (Call_ActivateCertificateAuthority actReq)
                                 (\<lambda>s. client_ActivateCertificateAuthority (client c) s actReq)
                                 w3 of
                            (Inl e, w4) \<Rightarrow>
                              (Inl (errors_Wrap e
                                 ''cloudCAS ActivateCertificateAuthority1 failed''), w4)
                          | (Inr resp, w4) \<Rightarrow>
                              (case invoke (Call_Wait resp)
                                      (\<lambda>s. operation_Wait (client c) s resp) w4 of
                                 (Inl e, w5) \<Rightarrow>
                                   (Inl (errors_Wrap e
                                      ''cloudCAS ActivateCertificateAuthority failed''), w5)
                               | (Inr ca, w5) \<Rightarrow> (Inr ca, w5)))))))"

text \<open>
  The end of \<^verbatim>\<open>CreateCertificateAuthority\<close>: the first certificate of the authority and
  the rest as its chain; an error when the authority has no certificate.
\<close>

definition authorityResponse ::
  "'pb env \<Rightarrow> pb_CertificateAuthority \<Rightarrow> error + CreateCertificateAuthorityResponse" where
  "authorityResponse env ca =
     (case PemCaCertificates ca of
        [] \<Rightarrow> Inl (errors_New
                 ''cloudCAS CreateCertificateAuthority failed: PemCaCertificates is empty'')
      | p # pemChain \<Rightarrow>
          (case parseCertificate env p of
             Inl e \<Rightarrow> Inl e
           | Inr cert \<Rightarrow>
               (case parseCertificates env pemChain of
                  Inl e \<Rightarrow> Inl e
                | Inr chain \<Rightarrow>
                    Inr \<lparr>cca_Name' = pbca_Name ca, cca_Certificate = cert,
                         cca_CertificateChain = chain\<rparr>)))"

text \<open>
  The remote part of \<^verbatim>\<open>CreateCertificateAuthority\<close>, from the comment
  "Create certificate authority" on: the create call, the wait for its long-running
  operation, the signing of an intermediate by its parent, and the response.
\<close>

definition submitCertificateAuthority ::
  "'pb env \<Rightarrow> ('s, 'pb) CloudCAS \<Rightarrow> CreateCertificateAuthorityRequest
     \<Rightarrow> 'pb pb_CreateCertificateAuthorityRequest \<Rightarrow> ('s, 'pb) world
     \<Rightarrow> (error + CreateCertificateAuthorityResponse) \<times> ('s, 'pb) world" where
  "submitCertificateAuthority env c req pbReq w1 =
     (case invoke (Call_CreateCertificateAuthority pbReq)
             (\<lambda>s. client_CreateCertificateAuthority (client c) s pbReq) w1 of
        (Inl e, w2) \<Rightarrow>
          (Inl (errors_Wrap e ''cloudCAS CreateCertificateAuthority failed''), w2)
      | (Inr resp, w2) \<Rightarrow>
          (case invoke (Call_Wait resp) (\<lambda>s. operation_Wait (client c) s resp) w2 of
             (Inl e, w3) \<Rightarrow>
               (Inl (errors_Wrap e ''cloudCAS CreateCertificateAuthority failed''), w3)
           | (Inr ca, w3) \<Rightarrow>
               (case (if cca_Type req = IntermediateCA
                      then signIntermediateCA env c (pbca_Name ca) req w3
                      else (Inr ca, w3)) of
                  (Inl e, w4) \<Rightarrow> (Inl e, w4)
                | (Inr ca', w4) \<Rightarrow> (authorityResponse env ca', w4))))"

text \<open>
  \<^verbatim>\<open>CreateCertificateAuthority\<close>: the checks, the key specification, the identifier, the
  correlation extension appended to the template, the request, and its submission.
\<close>

definition CreateCertificateAuthority ::
  "'pb env \<Rightarrow> ('s, 'pb) CloudCAS \<Rightarrow> CreateCertificateAuthorityRequest \<Rightarrow> ('s, 'pb) world
     \<Rightarrow> (error + CreateCertificateAuthorityResponse) \<times> x509_Certificate option
         \<times> ('s, 'pb) world" where
  "CreateCertificateAuthority env c req w =
     (if project c = [] then
        (Inl (errors_New ''cloudCAS `project` cannot be empty''), cca_Template req, w)
      else if location c = [] then
        (Inl (errors_New ''cloudCAS `location` cannot be empty''), cca_Template req, w)
      else case cca_Template req of
        None \<Rightarrow>
          (Inl (errors_New ''createCertificateAuthorityRequest `template` cannot be nil''),
           None, w)
      | Some tpl \<Rightarrow>
          if cca_Lifetime req = 0 then
            (Inl (errors_New ''createCertificateAuthorityRequest `lifetime` cannot be 0''),
             Some tpl, w)
          else if cca_Type req = IntermediateCA \<and> cca_Parent req = None then
            (Inl (errors_New ''createCertificateAuthorityRequest `parent` cannot be nil''),
             Some tpl, w)
          else if cca_Type req = IntermediateCA
                  \<and> (case cca_Parent req of None \<Rightarrow> False | Some p \<Rightarrow> cca_Name' p = []) then
            (Inl (errors_New
               ''createCertificateAuthorityRequest `parent.name` cannot be empty''),
             Some tpl, w)
          else
            (case (case cca_CreateKey req of
                     None \<Rightarrow> createKeyVersionSpec env 0 0
                   | Some k \<Rightarrow> createKeyVersionSpec env (SignatureAlgorithm k) (Bits k)) of
               Inl e \<Rightarrow>
                 (Inl (errors_Wrap e
                    ''createCertificateAuthorityRequest `createKey` is not valid''),
                  Some tpl, w)
             | Inr keySpec \<Rightarrow>
                 (case (if normalizeCertificateAuthorityName (cca_Name req) = []
                        then createCertificateID env w
                        else (Inr (normalizeCertificateAuthorityName (cca_Name req)), w)) of
                    (Inl e, w1) \<Rightarrow> (Inl e, Some tpl, w1)
                  | (Inr certificateAuthorityID, w1) \<Rightarrow>
                      (case CreateCertificateAuthorityExtension (asn1_Marshal env)
                              apiv1_CloudCAS certificateAuthorityID of
                         Inl e \<Rightarrow> (Inl e, Some tpl, w1)
                       | Inr casExtension \<Rightarrow>
                           (let tpl1 = tpl\<lparr>ExtraExtensions :=
                                             ExtraExtensions tpl @ [casExtension]\<rparr>;
                                pbReq = \<lparr>pca_Parent = ''projects/'' @ project c
                                                         @ ''/locations/'' @ location c,
                                         pca_CertificateAuthorityId = certificateAuthorityID,
                                         pca_RequestId = cca_RequestID req,
                                         pca_Type = TYPE_UNSPECIFIED,
                                         pca_Subject = createSubject env tpl1,
                                         pca_CommonName = Subject_CommonName tpl1,
                                         pca_ReusableConfig = createReusableConfig env tpl1,
                                         pca_Lifetime = cca_Lifetime req,
                                         pca_KeySpec = keySpec\<rparr>
                            in case (case cca_Type req of
                                       RootCA \<Rightarrow> Inr (pbReq\<lparr>pca_Type := SELF_SIGNED\<rparr>)
                                     | IntermediateCA \<Rightarrow> Inr (pbReq\<lparr>pca_Type := SUBORDINATE\<rparr>)
                                     | OtherCA n \<Rightarrow>
                                         Inl (errors_Errorf
                                           ''createCertificateAuthorityRequest `type=%d' is invalid or not supported''
                                           n)) of
                                 Inl e \<Rightarrow> (Inl e, Some tpl1, w1)
                               | Inr pbReq' \<Rightarrow>
                                   (case submitCertificateAuthority env c req pbReq' w1 of
                                      (res, w4) \<Rightarrow> (res, Some tpl1, w4)))))))"

subsection \<open>Classes of errors\<close>

text \<open>
  The errors the three operations return for a missing template or a zero lifetime:
  the validation errors of the request.
\<close>

definition is_validation_error :: "error \<Rightarrow> bool" where
  "is_validation_error e =
     (e = errors_New ''createCertificateRequest `template` cannot be nil''
      \<or> e = errors_New ''createCertificateRequest `lifetime` cannot be 0''
      \<or> e = errors_New ''renewCertificateRequest `template` cannot be nil''
      \<or> e = errors_New ''renewCertificateRequest `lifetime` cannot be 0''
      \<or> e = errors_New ''createCertificateAuthorityRequest `template` cannot be nil''
      \<or> e = errors_New ''createCertificateAuthorityRequest `lifetime` cannot be 0'')"

text \<open>A renewal request and a renewal response with the fields of a creation one.\<close>

definition as_renew_request :: "CreateCertificateRequest \<Rightarrow> RenewCertificateRequest" where
  "as_renew_request req =
     \<lparr>rn_Template = cc_Template req, rn_Lifetime = cc_Lifetime req,
      rn_RequestID = cc_RequestID req\<rparr>"

definition as_renew_response :: "CreateCertificateResponse \<Rightarrow> RenewCertificateResponse" where
  "as_renew_response resp =
     \<lparr>rn_Certificate = cc_Certificate resp, rn_CertificateChain = cc_CertificateChain resp\<rparr>"

section \<open>Stub collaborators\<close>

text \<open>
  A stub environment and a call-counting stub client, as a test of the adapter would
  use them. PEM decoding and parsing keep the text as the raw certificate, the
  extension is marshalled as its identifier, and the configuration built from a
  template is the list of its extra extensions.
\<close>

definition stub_cert :: "string \<Rightarrow> x509_Certificate" where
  "stub_cert b = \<lparr>Raw = b, Subject_CommonName = [], Extensions = [], ExtraExtensions = []\<rparr>"

definition stub_env :: "pkix_Extension list env" where
  "stub_env =
     \<lparr>pem_Decode = (\<lambda>s. if s = [] then None else Some s),
      x509_ParseCertificate = (\<lambda>b. Inr (stub_cert b)),
      asn1_Marshal = (\<lambda>x. Inr (cae_CertificateID x)),
      asn1_Unmarshal = (\<lambda>b. if b = [] then Inl (errors_New ''asn1: syntax error'')
                             else Inr \<lparr>cae_Type = apiv1_CloudCAS, cae_CertificateID = b\<rparr>),
      uuid_NewRandomFromReader = (\<lambda>n. Inr ''uuid''),
      createCertificateConfig = (\<lambda>t. Inr (ExtraExtensions t)),
      createSubject = (\<lambda>t. []),
      createReusableConfig = ExtraExtensions,
      createKeyVersionSpec = (\<lambda>a b. Inr [])\<rparr>"

definition stub_issued :: pb_Certificate where
  "stub_issued =
     \<lparr>PemCertificate = ''leaf'', PemCertificateChain = [''intermediate'', ''authorityCert'']\<rparr>"

definition stub_authority :: pb_CertificateAuthority where
  "stub_authority =
     \<lparr>pbca_Name = ''projects/p/locations/l/certificateAuthorities/ca'',
      PemCaCertificates = [''intermediate'', ''root'']\<rparr>"

definition stub_client :: "(nat, pkix_Extension list) CertificateAuthorityClient" where
  "stub_client =
     \<lparr>client_CreateCertificate = (\<lambda>s r. (Inr stub_issued, Suc s)),
      client_RevokeCertificate = (\<lambda>s r. (Inr stub_issued, Suc s)),
      client_GetCertificateAuthority = (\<lambda>s n. (Inr stub_authority, Suc s)),
      client_CreateCertificateAuthority = (\<lambda>s r. (Inr ''operation'', Suc s)),
      client_FetchCertificateAuthorityCsr = (\<lambda>s n. (Inr ''csr'', Suc s)),
      client_ActivateCertificateAuthority = (\<lambda>s r. (Inr ''operation'', Suc s)),
      operation_Wait = (\<lambda>s n. (Inr stub_authority, Suc s))\<rparr>"

text \<open>
  Clients whose answer depends on the request they receive: the leaf names the
  certificate identifier (or the certificate to revoke). The first returns two
  intermediates and the certificate of the authority as chain, the second an empty chain.
\<close>

definition echo_client :: "(nat, pkix_Extension list) CertificateAuthorityClient" where
  "echo_client =
     stub_client
       \<lparr>client_CreateCertificate :=
          (\<lambda>s r. (Inr \<lparr>PemCertificate = ''leaf-'' @ pcc_CertificateId r,
                         PemCertificateChain =
                           [''intermediate1'', ''intermediate2'', ''authorityCert'']\<rparr>, Suc s)),
        client_RevokeCertificate :=
          (\<lambda>s r. (Inr \<lparr>PemCertificate = prv_Name r,
                         PemCertificateChain =
                           [''intermediate1'', ''intermediate2'', ''authorityCert'']\<rparr>, Suc s))\<rparr>"

definition echo_client_bare :: "(nat, pkix_Extension list) CertificateAuthorityClient" where
  "echo_client_bare =
     stub_client
       \<lparr>client_CreateCertificate :=
          (\<lambda>s r. (Inr \<lparr>PemCertificate = ''leaf-'' @ pcc_CertificateId r,
                         PemCertificateChain = []\<rparr>, Suc s)),
        client_RevokeCertificate :=
          (\<lambda>s r. (Inr \<lparr>PemCertificate = prv_Name r, PemCertificateChain = []\<rparr>, Suc s))\<rparr>"

definition stub_cas :: "(nat, pkix_Extension list) CloudCAS" where
  "stub_cas =
     \<lparr>client = stub_client,
      certificateAuthority = ''projects/p/locations/l/certificateAuthorities/ca'',
      project = ''p'', location = ''l''\<rparr>"

definition echo_cas :: "(nat, pkix_Extension list) CloudCAS" where
  "echo_cas = stub_cas\<lparr>client := echo_client\<rparr>"

definition echo_cas_bare :: "(nat, pkix_Extension list) CloudCAS" where
  "echo_cas_bare = stub_cas\<lparr>client := echo_client_bare\<rparr>"

definition world0 :: "(nat, pkix_Extension list) world" where
  "world0 = \<lparr>remote = 0, calls = [], drawn = 0, printed = []\<rparr>"

definition stub_extension :: "string \<Rightarrow> pkix_Extension" where
  "stub_extension b =
     \<lparr>ext_Id = oidStepCertificateAuthority, ext_Critical = False, ext_Value = b\<rparr>"

text \<open>A template without extensions, and one that already carries a correlation extension.\<close>

definition stub_template :: x509_Certificate where
  "stub_template =
     \<lparr>Raw = [], Subject_CommonName = ''test'', Extensions = [], ExtraExtensions = []\<rparr>"

definition stub_template_tagged :: x509_Certificate where
  "stub_template_tagged = stub_template\<lparr>ExtraExtensions := [stub_extension ''old'']\<rparr>"

text \<open>An issued certificate that carries the correlation extension with the given value.\<close>

definition stub_issued_cert :: "string \<Rightarrow> x509_Certificate" where
  "stub_issued_cert b = (stub_cert ''leaf'')\<lparr>Extensions := [stub_extension b]\<rparr>"

definition stub_authority_request :: CreateCertificateAuthorityRequest where
  "stub_authority_request =
     \<lparr>cca_Name = ''my ca'', cca_Type = RootCA, cca_Template = Some stub_template,
      cca_Lifetime = 3600, cca_Parent = None, cca_RequestID = ''r'', cca_CreateKey = None\<rparr>"

text \<open>A component of a resource name: not empty and without a slash.\<close>

definition is_segment :: "string \<Rightarrow> bool" where
  "is_segment seg = (seg \<noteq> [] \<and> CHR ''/'' \<notin> set seg)"

definition stub_options :: apiv1_Options where
  "stub_options =
     \<lparr>opt_CertificateAuthority = ''projects/p/locations/l/certificateAuthorities/ca'',
      opt_Project = [], opt_Location = [], opt_IsCreator = False, opt_CredentialsFile = []\<rparr>"

text \<open>
  The requests used below, and what the adapter submits for them with the stub
  environment (the identifier is the one the stub random source gives).
\<close>

definition stub_authority_submission ::
  "pkix_Extension list \<Rightarrow> pkix_Extension list pb_CreateCertificateAuthorityRequest" where
  "stub_authority_submission exts =
     \<lparr>pca_Parent = ''projects/p/locations/l'',
      pca_CertificateAuthorityId = ''my-ca'',
      pca_RequestId = ''r'',
      pca_Type = SELF_SIGNED,
      pca_Subject = [],
      pca_CommonName = ''test'',
      pca_ReusableConfig = exts,
      pca_Lifetime = 3600,
      pca_KeySpec = []\<rparr>"

definition stub_issue_submission ::
  "pkix_Extension list pb_CreateCertificateRequest" where
  "stub_issue_submission =
     \<lparr>pcc_Parent = ''projects/p/locations/l/certificateAuthorities/ca'',
      pcc_CertificateId = ''uuid'',
      pcc_CertificateConfig = Certificate_Config [stub_extension ''uuid''],
      pcc_Lifetime = 3600,
      pcc_RequestId = ''r''\<rparr>"

definition stub_request :: CreateCertificateRequest where
  "stub_request = \<lparr>cc_Template = Some stub_template, cc_Lifetime = 3600, cc_RequestID = ''r''\<rparr>"

definition stub_revoke_request :: RevokeCertificateRequest where
  "stub_revoke_request =
     \<lparr>rv_Certificate = Some (stub_issued_cert ''id''), rv_ReasonCode = 1, rv_RequestID = ''r''\<rparr>"

definition stub_revoke_submission :: pb_RevokeCertificateRequest where
  "stub_revoke_submission =
     \<lparr>prv_Name = ''projects/p/locations/l/certificateAuthorities/ca/certificates/id'',
      prv_Reason = KEY_COMPROMISE, prv_RequestId = ''r''\<rparr>"

section \<open>Auxiliary facts\<close>

lemma invoke_eq:
  "invoke ev f w = (fst (f (remote w)), w\<lparr>remote := snd (f (remote w)), calls := calls w @ [ev]\<rparr>)"
  by (simp add: invoke_def split: prod.splits)

lemmas stub_defs = stub_env_def stub_client_def stub_cas_def world0_def stub_issued_def
  stub_authority_def stub_template_def stub_cert_def
  stub_extension_def stub_template_tagged_def stub_issued_cert_def

lemmas op_defs = CreateCertificate_def RenewCertificate_def createCertificate_def
  createCertificateID_def invoke_eq getCertificateAndChain_def parseCertificate_def
  RemoveCertificateAuthorityExtension_def CreateCertificateAuthorityExtension_def
  RevokeCertificate_def GetCertificateAuthority_def FindCertificateAuthorityExtension_def
  is_cas_extension_def

lemmas echo_defs = echo_client_def echo_client_bare_def echo_cas_def echo_cas_bare_def

lemmas run_defs = stub_defs echo_defs op_defs stub_request_def stub_issue_submission_def
  stub_revoke_request_def stub_revoke_submission_def as_renew_request_def Let_def

text \<open>The loop over the chain parses every element, in order.\<close>

lemma parseCertificates_iff:
  "parseCertificates env ps = Inr cs
     \<longleftrightarrow> list_all2 (\<lambda>p crt. parseCertificate env p = Inr crt) ps cs"
proof (induction ps arbitrary: cs)
  case Nil
  then show ?case by auto
next
  case (Cons p ps)
  show ?case
  proof (cases cs)
    case Nil
    then show ?thesis by (auto split: sum.splits)
  next
    case (Cons d ds)
    then show ?thesis
      using Cons.IH [of ds] by (auto split: sum.splits)
  qed
qed

lemma getCertificateAndChain_trimmed:
  assumes "PemCertificateChain certpb = ims @ [authorityCert]"
    and "parseCertificate env (PemCertificate certpb) = Inr leaf"
    and "list_all2 (\<lambda>p crt. parseCertificate env p = Inr crt) ims chain"
  shows "getCertificateAndChain env certpb = Inr (leaf, chain)"
  using assms by (simp add: getCertificateAndChain_def parseCertificates_iff [symmetric])

text \<open>
  The result of an operation that sent a request is decided by the answer of the client
  to that request.
\<close>

lemma createCertificate_sent:
  assumes "createCertificate env c tpl l r w = (res, tpl', w')"
    and "calls w' = calls w @ [Call_CreateCertificate pbReq]"
  shows "res = (case fst (client_CreateCertificate (client c) (remote w) pbReq) of
                  Inl e \<Rightarrow> Inl (errors_Wrap e ''cloudCAS CreateCertificate failed'')
                | Inr certpb \<Rightarrow> getCertificateAndChain env certpb)"
  using assms
  by (auto simp add: createCertificate_def createCertificateID_def invoke_eq Let_def
      split: sum.splits prod.splits)

lemma CreateCertificate_sent:
  assumes "calls (snd (snd (CreateCertificate env c req w)))
             = calls w @ [Call_CreateCertificate pbReq]"
  shows "fst (CreateCertificate env c req w) =
           (case fst (client_CreateCertificate (client c) (remote w) pbReq) of
              Inl e \<Rightarrow> Inl (errors_Wrap e ''cloudCAS CreateCertificate failed'')
            | Inr certpb \<Rightarrow>
                map_sum id (\<lambda>(cert, chain). \<lparr>cc_Certificate = cert, cc_CertificateChain = chain\<rparr>)
                  (getCertificateAndChain env certpb))"
proof -
  from assms obtain tpl where t: "cc_Template req = Some tpl" and l: "cc_Lifetime req \<noteq> 0"
    by (auto simp add: CreateCertificate_def split: option.splits if_splits)
  obtain res tpl' w' where
    cc: "createCertificate env c tpl (cc_Lifetime req) (cc_RequestID req) w = (res, tpl', w')"
    by (cases "createCertificate env c tpl (cc_Lifetime req) (cc_RequestID req) w") auto
  from assms t l cc have s: "calls w' = calls w @ [Call_CreateCertificate pbReq]"
    by (auto simp add: CreateCertificate_def split: sum.splits prod.splits)
  from t l cc show ?thesis
    unfolding createCertificate_sent [OF cc s]
    by (auto simp add: CreateCertificate_def split: sum.splits prod.splits)
qed

lemma RenewCertificate_sent:
  assumes "calls (snd (snd (RenewCertificate env c req w)))
             = calls w @ [Call_CreateCertificate pbReq]"
  shows "fst (RenewCertificate env c req w) =
           (case fst (client_CreateCertificate (client c) (remote w) pbReq) of
              Inl e \<Rightarrow> Inl (errors_Wrap e ''cloudCAS CreateCertificate failed'')
            | Inr certpb \<Rightarrow>
                map_sum id (\<lambda>(cert, chain). \<lparr>rn_Certificate = cert, rn_CertificateChain = chain\<rparr>)
                  (getCertificateAndChain env certpb))"
proof -
  from assms obtain tpl where t: "rn_Template req = Some tpl" and l: "rn_Lifetime req \<noteq> 0"
    by (auto simp add: RenewCertificate_def split: option.splits if_splits)
  obtain res tpl' w' where
    cc: "createCertificate env c tpl (rn_Lifetime req) (rn_RequestID req) w = (res, tpl', w')"
    by (cases "createCertificate env c tpl (rn_Lifetime req) (rn_RequestID req) w") auto
  from assms t l cc have s: "calls w' = calls w @ [Call_CreateCertificate pbReq]"
    by (auto simp add: RenewCertificate_def split: sum.splits prod.splits)
  from t l cc show ?thesis
    unfolding createCertificate_sent [OF cc s]
    by (auto simp add: RenewCertificate_def split: sum.splits prod.splits)
qed

lemma RevokeCertificate_sent:
  assumes "calls (snd (RevokeCertificate env c req w))
             = calls w @ [Call_RevokeCertificate pbReq]"
  shows "fst (RevokeCertificate env c req w) =
           (case fst (client_RevokeCertificate (client c) (remote w) pbReq) of
              Inl e \<Rightarrow> Inl (errors_Wrap e ''cloudCAS RevokeCertificate failed'')
            | Inr certpb \<Rightarrow>
                map_sum id (\<lambda>(cert, chain). \<lparr>rv_Certificate' = cert, rv_CertificateChain = chain\<rparr>)
                  (getCertificateAndChain env certpb))"
  using assms
  by (auto simp add: RevokeCertificate_def invoke_eq Let_def
      split: option.splits sum.splits prod.splits)

lemma getCertificateAndChain_empty:
  assumes "PemCertificateChain certpb = []"
    and "parseCertificate env (PemCertificate certpb) = Inr leaf"
  shows "getCertificateAndChain env certpb = Inl (runtime_panic ''slice bounds out of range [:-1]'')"
  using assms by (simp add: getCertificateAndChain_def)

lemma revocationCodeMap_dom: "dom revocationCodeMap = {0, 1, 2, 3, 4, 5, 6, 9, 10}"
  by (auto simp add: revocationCodeMap_def dom_def split: if_splits)

lemma normalizeRune_range: "0 \<le> normalizeRune r \<and> normalizeRune r < 0x80"
  by (simp add: normalizeRune_def)

lemma normalizeRune_eq: "normalizeRune r = (if in_name_charset r then r else 0x2D)"
  by (auto simp add: normalizeRune_def in_name_charset_def)

lemma normalizeRune_idem: "normalizeRune (normalizeRune r) = normalizeRune r"
  by (simp add: normalizeRune_def)

lemma EncodeRune_ascii: "0 \<le> r \<Longrightarrow> r < 0x80 \<Longrightarrow> EncodeRune r = [char_of (nat r)]"
  by (simp add: EncodeRune_def Let_def)

lemma normalize_runes:
  "normalizeCertificateAuthorityName s = map (\<lambda>r. char_of (nat (normalizeRune r))) (runes s)"
proof -
  have "\<And>c. (let r = normalizeRune c in if r < 0 then [] else EncodeRune r)
            = [char_of (nat (normalizeRune c))]"
    using normalizeRune_range EncodeRune_ascii by (simp add: Let_def not_less[symmetric])
  then show ?thesis
    by (simp add: normalizeCertificateAuthorityName_def strings_Map_def)
qed

lemma runes_ascii:
  "\<forall>c \<in> set s. (of_char c :: nat) < 0x80 \<Longrightarrow> runes s = map (\<lambda>c. int (of_char c)) s"
  by (induction s) (simp_all add: Let_def)

lemma of_char_normalized:
  "(of_char (char_of (nat (normalizeRune r)) :: char) :: nat) = nat (normalizeRune r)"
proof -
  have "nat (normalizeRune r) < 256"
    using normalizeRune_range [of r] by linarith
  then show ?thesis by simp
qed

lemma normalizeRune_again:
  "nat (normalizeRune (int (nat (normalizeRune r)))) = nat (normalizeRune r)"
  using normalizeRune_range [of r] by (simp add: normalizeRune_idem)

lemma normalize_step:
  "char_of (nat (normalizeRune (int (of_char (char_of (nat (normalizeRune r)) :: char)))))
     = (char_of (nat (normalizeRune r)) :: char)"
  by (simp only: of_char_normalized normalizeRune_again)

lemma normalize_fixed:
  "normalizeCertificateAuthorityName (map (\<lambda>r. char_of (nat (normalizeRune r))) rs)
     = map (\<lambda>r. char_of (nat (normalizeRune r))) rs"
proof -
  let ?t = "map (\<lambda>r. char_of (nat (normalizeRune r)) :: char) rs"
  have small: "\<forall>c \<in> set ?t. (of_char c :: nat) < 0x80"
  proof
    fix c assume "c \<in> set ?t"
    then obtain r where c: "c = char_of (nat (normalizeRune r))" by auto
    have "nat (normalizeRune r) < 0x80"
      using normalizeRune_range [of r] by linarith
    then show "(of_char c :: nat) < 0x80"
      by (simp only: c of_char_normalized)
  qed
  have "normalizeCertificateAuthorityName ?t
          = map (\<lambda>r. char_of (nat (normalizeRune r))) (map (\<lambda>c. int (of_char c)) ?t)"
    by (simp only: normalize_runes runes_ascii [OF small])
  also have "\<dots> = ?t"
    by (simp only: map_map comp_def normalize_step)
  finally show ?thesis .
qed

lemma char_of_hyphen: "char_of (45::nat) = CHR ''-''"
  by code_simp

subsection \<open>Resource names\<close>

lemma match_literal_iff: "match_literal p s = Some r \<longleftrightarrow> s = p @ r"
  by (induction p s rule: match_literal.induct) auto

lemma takeWhile_segment:
  "x \<notin> set seg \<Longrightarrow> takeWhile (\<lambda>c. c \<noteq> x) (seg @ x # rest) = seg"
  by (induction seg) auto

lemma dropWhile_segment:
  "x \<notin> set seg \<Longrightarrow> dropWhile (\<lambda>c. c \<noteq> x) (seg @ x # rest) = x # rest"
  by (induction seg) auto

lemma takeWhile_whole: "x \<notin> set seg \<Longrightarrow> takeWhile (\<lambda>c. c \<noteq> x) seg = seg"
  by (induction seg) auto

lemma dropWhile_whole: "x \<notin> set seg \<Longrightarrow> dropWhile (\<lambda>c. c \<noteq> x) seg = []"
  by (induction seg) auto

lemma match_segment_iff:
  "match_segment s = Some r \<longleftrightarrow>
     (\<exists>seg. s = seg @ r \<and> seg \<noteq> [] \<and> CHR ''/'' \<notin> set seg \<and> (r = [] \<or> hd r = CHR ''/''))"
proof
  assume m: "match_segment s = Some r"
  let ?seg = "takeWhile (\<lambda>c. c \<noteq> CHR ''/'') s"
  from m have ne: "?seg \<noteq> []" and r: "r = dropWhile (\<lambda>c. c \<noteq> CHR ''/'') s"
    by (auto simp add: match_segment_def split: if_splits)
  have "s = ?seg @ r" by (simp add: r)
  moreover have "CHR ''/'' \<notin> set ?seg"
    by (metis (mono_tags, lifting) set_takeWhileD)
  moreover have "r = [] \<or> hd r = CHR ''/''"
    unfolding r using hd_dropWhile [of "\<lambda>c. c \<noteq> CHR ''/''" s] by blast
  ultimately show "\<exists>seg. s = seg @ r \<and> seg \<noteq> [] \<and> CHR ''/'' \<notin> set seg \<and> (r = [] \<or> hd r = CHR ''/'')"
    using ne by blast
next
  assume "\<exists>seg. s = seg @ r \<and> seg \<noteq> [] \<and> CHR ''/'' \<notin> set seg \<and> (r = [] \<or> hd r = CHR ''/'')"
  then obtain seg where s: "s = seg @ r" and ne: "seg \<noteq> []" and ns: "CHR ''/'' \<notin> set seg"
    and r: "r = [] \<or> hd r = CHR ''/''" by blast
  have t: "takeWhile (\<lambda>c. c \<noteq> CHR ''/'') s = seg"
    using r ns unfolding s by (cases r) (auto simp add: takeWhile_segment takeWhile_whole)
  have d: "dropWhile (\<lambda>c. c \<noteq> CHR ''/'') s = r"
    using r ns unfolding s by (cases r) (auto simp add: dropWhile_segment dropWhile_whole)
  show "match_segment s = Some r"
    by (simp add: match_segment_def t d ne)
qed

lemma caRegexp_MatchString_iff:
  "caRegexp_MatchString s \<longleftrightarrow>
     (\<exists>p l n. s = ''projects/'' @ p @ ''/locations/'' @ l @ ''/certificateAuthorities/'' @ n
        \<and> is_segment p \<and> is_segment l \<and> is_segment n)"
  (is "?L \<longleftrightarrow> ?R")
proof
  assume ?L
  then obtain s1 s2 s3 s4 s5 where
    a: "match_literal ''projects/'' s = Some s1" and b: "match_segment s1 = Some s2"
    and c: "match_literal ''/locations/'' s2 = Some s3" and d: "match_segment s3 = Some s4"
    and e: "match_literal ''/certificateAuthorities/'' s4 = Some s5"
    and f: "match_segment s5 = Some []"
    by (auto simp add: caRegexp_MatchString_def split: option.splits)
  from b obtain p where p: "s1 = p @ s2" "is_segment p"
    unfolding match_segment_iff is_segment_def by blast
  from d obtain l where l: "s3 = l @ s4" "is_segment l"
    unfolding match_segment_iff is_segment_def by blast
  from f obtain n where n: "s5 = n" "is_segment n"
    unfolding match_segment_iff is_segment_def by auto
  from a c e have "s = ''projects/'' @ s1" "s2 = ''/locations/'' @ s3"
    "s4 = ''/certificateAuthorities/'' @ s5"
    unfolding match_literal_iff by simp_all
  with p l n show ?R by auto
next
  assume ?R
  then obtain p l n where
    s: "s = ''projects/'' @ p @ ''/locations/'' @ l @ ''/certificateAuthorities/'' @ n"
    and p: "is_segment p" and l: "is_segment l" and n: "is_segment n" by blast
  have a: "match_literal ''projects/'' s = Some (p @ ''/locations/'' @ l @ ''/certificateAuthorities/'' @ n)"
    unfolding match_literal_iff s by simp
  have b: "match_segment (p @ ''/locations/'' @ l @ ''/certificateAuthorities/'' @ n)
             = Some (''/locations/'' @ l @ ''/certificateAuthorities/'' @ n)"
    unfolding match_segment_iff using p by (auto simp add: is_segment_def)
  have c: "match_literal ''/locations/'' (''/locations/'' @ l @ ''/certificateAuthorities/'' @ n)
             = Some (l @ ''/certificateAuthorities/'' @ n)"
    unfolding match_literal_iff by simp
  have d: "match_segment (l @ ''/certificateAuthorities/'' @ n) = Some (''/certificateAuthorities/'' @ n)"
    unfolding match_segment_iff using l by (auto simp add: is_segment_def)
  have e: "match_literal ''/certificateAuthorities/'' (''/certificateAuthorities/'' @ n) = Some n"
    unfolding match_literal_iff by simp
  have f: "match_segment n = Some []"
    unfolding match_segment_iff using n by (auto simp add: is_segment_def)
  show ?L
    by (simp only: caRegexp_MatchString_def a b c d e f option.case)
qed

lemma strings_Split_nonempty: "strings_Split s sep \<noteq> []"
  by (induction s) (auto split: list.splits)

lemma strings_Split_nosep: "sep \<notin> set xs \<Longrightarrow> strings_Split xs sep = [xs]"
  by (induction xs) auto

lemma strings_Split_append:
  "sep \<notin> set xs \<Longrightarrow> strings_Split (xs @ sep # ys) sep = xs # strings_Split ys sep"
  by (induction xs) auto

lemma strings_Split_resource:
  assumes "is_segment p" "is_segment l" "is_segment n"
  shows "strings_Split (''projects/'' @ p @ ''/locations/'' @ l @ ''/certificateAuthorities/'' @ n)
           (CHR ''/'')
         = [''projects'', p, ''locations'', l, ''certificateAuthorities'', n]"
proof -
  have 1: "strings_Split n (CHR ''/'') = [n]"
    using assms(3) by (simp add: strings_Split_nosep is_segment_def)
  have 2: "strings_Split (''certificateAuthorities'' @ CHR ''/'' # n) (CHR ''/'')
             = [''certificateAuthorities'', n]"
    by (subst strings_Split_append) (simp_all add: 1)
  have 3: "strings_Split (l @ CHR ''/'' # ''certificateAuthorities'' @ CHR ''/'' # n) (CHR ''/'')
             = [l, ''certificateAuthorities'', n]"
    using assms(2) by (subst strings_Split_append) (simp_all only: 2 is_segment_def not_False_eq_True)
  have 4: "strings_Split (''locations'' @ CHR ''/'' # l @ CHR ''/'' # ''certificateAuthorities'' @ CHR ''/'' # n) (CHR ''/'')
             = [''locations'', l, ''certificateAuthorities'', n]"
    by (subst strings_Split_append) (simp_all only: 3, simp)
  have 5: "strings_Split (p @ CHR ''/'' # ''locations'' @ CHR ''/'' # l @ CHR ''/'' # ''certificateAuthorities'' @ CHR ''/'' # n) (CHR ''/'')
             = [p, ''locations'', l, ''certificateAuthorities'', n]"
    using assms(1) by (subst strings_Split_append) (simp_all only: 4 is_segment_def not_False_eq_True)
  have 6: "strings_Split (''projects'' @ CHR ''/'' # p @ CHR ''/'' # ''locations'' @ CHR ''/'' # l @ CHR ''/'' # ''certificateAuthorities'' @ CHR ''/'' # n) (CHR ''/'')
             = [''projects'', p, ''locations'', l, ''certificateAuthorities'', n]"
    by (subst strings_Split_append) (simp_all only: 5, simp)
  show ?thesis using 6 by simp
qed

lemma New_matched:
  assumes "\<not> opt_IsCreator opts"
    and "opt_CertificateAuthority opts
           = ''projects/'' @ p @ ''/locations/'' @ l @ ''/certificateAuthorities/'' @ n"
    and "is_segment p" "is_segment l" "is_segment n"
  shows "New ncl opts =
           (case ncl (opt_CredentialsFile opts) of
              Inl e \<Rightarrow> Inl e
            | Inr cl \<Rightarrow>
                Inr \<lparr>client = cl,
                     certificateAuthority = opt_CertificateAuthority opts,
                     project = (if opt_Project opts = [] then p else opt_Project opts),
                     location = (if opt_Location opts = [] then l else opt_Location opts)\<rparr>)"
proof -
  have m: "caRegexp_MatchString (opt_CertificateAuthority opts)"
    unfolding caRegexp_MatchString_iff using assms(2-5) by blast
  have ne: "opt_CertificateAuthority opts \<noteq> []"
    unfolding assms(2) by simp
  have sp: "strings_Split (opt_CertificateAuthority opts) (CHR ''/'')
              = [''projects'', p, ''locations'', l, ''certificateAuthorities'', n]"
    unfolding assms(2) using assms(3-5) by (rule strings_Split_resource)
  show ?thesis
    using assms(1) m ne
    by (simp add: New_def sp Let_def split: sum.splits)
qed

lemma New_project_location:
  assumes "New ncl opts = Inr cas"
  shows "project cas \<noteq> [] \<and> location cas \<noteq> []"
proof (cases "opt_IsCreator opts")
  case True
  with assms show ?thesis
    by (auto simp add: New_def split: if_splits sum.splits)
next
  case False
  from assms False have m: "caRegexp_MatchString (opt_CertificateAuthority opts)"
    by (auto simp add: New_def split: if_splits)
  then obtain p l n where
    ca: "opt_CertificateAuthority opts
           = ''projects/'' @ p @ ''/locations/'' @ l @ ''/certificateAuthorities/'' @ n"
    and seg: "is_segment p" "is_segment l" "is_segment n"
    unfolding caRegexp_MatchString_iff by blast
  from New_matched [OF False ca seg, of ncl] assms seg show ?thesis
    by (auto simp add: is_segment_def split: sum.splits)
qed

subsection \<open>The template and the calls of an operation\<close>

lemma createCertificate_template:
  assumes R: "createCertificate env c tpl l r w = (res, tpl', w')"
  shows "count_cas_extensions tpl' \<le> 1
       \<and> (calls w' \<noteq> calls w \<longrightarrow>
            (\<exists>pbReq cfg b.
               calls w' = calls w @ [Call_CreateCertificate pbReq]
               \<and> createCertificateConfig env tpl' = Inr cfg
               \<and> pcc_CertificateConfig pbReq = Certificate_Config cfg
               \<and> asn1_Marshal env
                    \<lparr>cae_Type = apiv1_CloudCAS, cae_CertificateID = pcc_CertificateId pbReq\<rparr>
                   = Inr b
               \<and> ExtraExtensions tpl'
                   = filter (\<lambda>ext. \<not> is_cas_extension ext) (ExtraExtensions tpl)
                     @ [\<lparr>ext_Id = oidStepCertificateAuthority, ext_Critical = False,
                         ext_Value = b\<rparr>]
               \<and> count_cas_extensions tpl' = 1))"
  using R
  by (auto simp add: createCertificate_def createCertificateID_def invoke_eq Let_def
        RemoveCertificateAuthorityExtension_def CreateCertificateAuthorityExtension_def
        count_cas_extensions_def is_cas_extension_def
      split: sum.splits prod.splits)

lemma signIntermediateCA_calls:
  "\<exists>rest. calls (snd (signIntermediateCA env c name req w)) = calls w @ rest"
  by (auto simp add: signIntermediateCA_def createCertificateID_def invoke_eq Let_def
      split: sum.splits prod.splits option.splits)

lemma signIntermediateCA_callsD:
  "signIntermediateCA env c name req w3 = (r, w4) \<Longrightarrow> \<exists>rest. calls w4 = calls w3 @ rest"
  using signIntermediateCA_calls [of env c name req w3] by simp

lemma submitCertificateAuthority_calls:
  "\<exists>rest. calls (snd (submitCertificateAuthority env c req pbReq w))
            = calls w @ Call_CreateCertificateAuthority pbReq # rest"
  by (auto simp add: submitCertificateAuthority_def invoke_eq
      split: sum.splits prod.splits dest!: signIntermediateCA_callsD)

lemma CreateCertificateAuthority_cases:
  assumes R: "CreateCertificateAuthority env c req w = (res, tplo, w')"
  shows "calls w' = calls w
       \<or> (\<exists>tpl b pbReq w1.
             cca_Template req = Some tpl
             \<and> tplo = Some (tpl\<lparr>ExtraExtensions := ExtraExtensions tpl
                   @ [\<lparr>ext_Id = oidStepCertificateAuthority, ext_Critical = False,
                       ext_Value = b\<rparr>]\<rparr>)
             \<and> pca_ReusableConfig pbReq = createReusableConfig env (the tplo)
             \<and> pca_Subject pbReq = createSubject env (the tplo)
             \<and> asn1_Marshal env
                  \<lparr>cae_Type = apiv1_CloudCAS,
                   cae_CertificateID = pca_CertificateAuthorityId pbReq\<rparr> = Inr b
             \<and> calls w1 = calls w
             \<and> submitCertificateAuthority env c req pbReq w1 = (res, w'))"
  using R
  by (auto simp add: CreateCertificateAuthority_def createCertificateID_def Let_def
        CreateCertificateAuthorityExtension_def
      split: sum.splits prod.splits option.splits if_splits CertificateAuthorityType.splits)

lemma count_cas_extensions_append:
  "count_cas_extensions (tpl\<lparr>ExtraExtensions := ExtraExtensions tpl
       @ [\<lparr>ext_Id = oidStepCertificateAuthority, ext_Critical = False, ext_Value = b\<rparr>]\<rparr>)
     = Suc (count_cas_extensions tpl)"
  by (simp add: count_cas_extensions_def is_cas_extension_def)

lemma CreateCertificateAuthority_template:
  assumes R: "CreateCertificateAuthority env c req w = (res, tplo, w')"
    and reached: "calls w' \<noteq> calls w"
  shows "\<exists>tpl tpl' pbReq b rest.
           cca_Template req = Some tpl \<and> tplo = Some tpl'
           \<and> calls w' = calls w @ Call_CreateCertificateAuthority pbReq # rest
           \<and> pca_ReusableConfig pbReq = createReusableConfig env tpl'
           \<and> pca_Subject pbReq = createSubject env tpl'
           \<and> asn1_Marshal env
                \<lparr>cae_Type = apiv1_CloudCAS,
                 cae_CertificateID = pca_CertificateAuthorityId pbReq\<rparr> = Inr b
           \<and> ExtraExtensions tpl'
               = ExtraExtensions tpl
                 @ [\<lparr>ext_Id = oidStepCertificateAuthority, ext_Critical = False, ext_Value = b\<rparr>]
           \<and> count_cas_extensions tpl' = Suc (count_cas_extensions tpl)"
proof -
  from CreateCertificateAuthority_cases [OF R] reached
  obtain tpl b pbReq w1 where
    t: "cca_Template req = Some tpl"
    and o: "tplo = Some (tpl\<lparr>ExtraExtensions := ExtraExtensions tpl
                   @ [\<lparr>ext_Id = oidStepCertificateAuthority, ext_Critical = False,
                       ext_Value = b\<rparr>]\<rparr>)"
    and rc: "pca_ReusableConfig pbReq = createReusableConfig env (the tplo)"
    and sj: "pca_Subject pbReq = createSubject env (the tplo)"
    and m: "asn1_Marshal env
                  \<lparr>cae_Type = apiv1_CloudCAS,
                   cae_CertificateID = pca_CertificateAuthorityId pbReq\<rparr> = Inr b"
    and w1: "calls w1 = calls w"
    and s: "submitCertificateAuthority env c req pbReq w1 = (res, w')"
    by blast
  from submitCertificateAuthority_calls [of env c req pbReq w1] s w1
  obtain rest where c: "calls w' = calls w @ Call_CreateCertificateAuthority pbReq # rest"
    by auto
  show ?thesis
    using t o rc sj m c count_cas_extensions_append [of tpl b]
    by (intro exI [of _ tpl] exI [of _ "the tplo"] exI [of _ pbReq] exI [of _ b]
          exI [of _ rest]) simp
qed

lemma normalize_my_ca: "normalizeCertificateAuthorityName ''my ca'' = ''my-ca''"
  by code_simp

lemma first_authority_run:
  "CreateCertificateAuthority stub_env stub_cas stub_authority_request world0 =
     (Inr \<lparr>cca_Name' = ''projects/p/locations/l/certificateAuthorities/ca'',
            cca_Certificate = stub_cert ''intermediate'',
            cca_CertificateChain = [stub_cert ''root'']\<rparr>,
      Some (stub_template\<lparr>ExtraExtensions := [stub_extension ''my-ca'']\<rparr>),
      \<lparr>remote = 2,
       calls = [Call_CreateCertificateAuthority
                  (stub_authority_submission [stub_extension ''my-ca'']),
                Call_Wait ''operation''],
       drawn = 0, printed = []\<rparr>)"
  by (simp add: CreateCertificateAuthority_def submitCertificateAuthority_def stub_defs
      stub_authority_request_def normalize_my_ca invoke_eq Let_def
      CreateCertificateAuthorityExtension_def authorityResponse_def parseCertificate_def
      stub_authority_submission_def)

lemma second_authority_run:
  "CreateCertificateAuthority stub_env stub_cas
     (stub_authority_request
        \<lparr>cca_Template := Some (stub_template\<lparr>ExtraExtensions := [stub_extension ''my-ca'']\<rparr>)\<rparr>)
     \<lparr>remote = 2,
      calls = [Call_CreateCertificateAuthority
                 (stub_authority_submission [stub_extension ''my-ca'']),
               Call_Wait ''operation''],
      drawn = 0, printed = []\<rparr> =
     (Inr \<lparr>cca_Name' = ''projects/p/locations/l/certificateAuthorities/ca'',
            cca_Certificate = stub_cert ''intermediate'',
            cca_CertificateChain = [stub_cert ''root'']\<rparr>,
      Some (stub_template\<lparr>ExtraExtensions :=
              [stub_extension ''my-ca'', stub_extension ''my-ca'']\<rparr>),
      \<lparr>remote = 4,
       calls = [Call_CreateCertificateAuthority
                  (stub_authority_submission [stub_extension ''my-ca'']),
                Call_Wait ''operation'',
                Call_CreateCertificateAuthority
                  (stub_authority_submission
                     [stub_extension ''my-ca'', stub_extension ''my-ca'']),
                Call_Wait ''operation''],
       drawn = 0, printed = []\<rparr>)"
  by (simp add: CreateCertificateAuthority_def submitCertificateAuthority_def stub_defs
      stub_authority_request_def normalize_my_ca invoke_eq Let_def
      CreateCertificateAuthorityExtension_def authorityResponse_def parseCertificate_def
      stub_authority_submission_def)

lemma CreateCertificate_tagged:
  "CreateCertificate stub_env stub_cas
     \<lparr>cc_Template = Some stub_template_tagged, cc_Lifetime = 3600, cc_RequestID = ''r''\<rparr> world0
   = (Inr \<lparr>cc_Certificate = stub_cert ''leaf'',
           cc_CertificateChain = [stub_cert ''intermediate'']\<rparr>,
      Some (stub_template\<lparr>ExtraExtensions := [stub_extension ''uuid'']\<rparr>),
      \<lparr>remote = 1,
       calls = [Call_CreateCertificate
                  \<lparr>pcc_Parent = ''projects/p/locations/l/certificateAuthorities/ca'',
                   pcc_CertificateId = ''uuid'',
                   pcc_CertificateConfig = Certificate_Config [stub_extension ''uuid''],
                   pcc_Lifetime = 3600,
                   pcc_RequestId = ''r''\<rparr>],
       drawn = 1, printed = []\<rparr>)"
  by (simp add: stub_defs op_defs Let_def)

section \<open>Properties\<close>

text \<open>
  Claim C1. When the remote client answers the request that \<^verbatim>\<open>CreateCertificate\<close> or
  \<^verbatim>\<open>RenewCertificate\<close> sent with a leaf and a PEM chain whose last element is the
  certificate of the issuing authority, the response has the parsed leaf as certificate
  and, as chain, the parse of every element of the chain but the last, in order. For the
  stub that returns the chain intermediate, authorityCert the response chain is the
  intermediate alone.
\<close>

theorem issued_leaf_and_trimmed_chain:
  assumes "fst (client_CreateCertificate (client c) (remote w) pbReq) = Inr certpb"
    and "PemCertificateChain certpb = ims @ [authorityCert]"
    and "parseCertificate env (PemCertificate certpb) = Inr leaf"
    and "list_all2 (\<lambda>p crt. parseCertificate env p = Inr crt) ims chain"
  shows "(calls (snd (snd (CreateCertificate env c req w)))
            = calls w @ [Call_CreateCertificate pbReq] \<longrightarrow>
          fst (CreateCertificate env c req w)
            = Inr \<lparr>cc_Certificate = leaf, cc_CertificateChain = chain\<rparr>)
       \<and> (calls (snd (snd (RenewCertificate env c rreq w)))
            = calls w @ [Call_CreateCertificate pbReq] \<longrightarrow>
          fst (RenewCertificate env c rreq w)
            = Inr \<lparr>rn_Certificate = leaf, rn_CertificateChain = chain\<rparr>)"
proof -
  have g: "getCertificateAndChain env certpb = Inr (leaf, chain)"
    using assms(2-4) by (rule getCertificateAndChain_trimmed)
  show ?thesis
    by (auto simp add: CreateCertificate_sent RenewCertificate_sent assms(1) g)
qed

theorem issued_leaf_and_trimmed_chain_witness:
  "fst (CreateCertificate stub_env echo_cas stub_request world0)
     = Inr \<lparr>cc_Certificate = stub_cert ''leaf-uuid'',
            cc_CertificateChain = [stub_cert ''intermediate1'', stub_cert ''intermediate2'']\<rparr>
   \<and> fst (RenewCertificate stub_env echo_cas (as_renew_request stub_request) world0)
     = Inr \<lparr>rn_Certificate = stub_cert ''leaf-uuid'',
            rn_CertificateChain = [stub_cert ''intermediate1'', stub_cert ''intermediate2'']\<rparr>
   \<and> fst (CreateCertificate stub_env stub_cas stub_request world0)
     = Inr \<lparr>cc_Certificate = stub_cert ''leaf'',
            cc_CertificateChain = [stub_cert ''intermediate'']\<rparr>"
proof -
  let ?certpb = "\<lparr>PemCertificate = ''leaf-uuid'',
                  PemCertificateChain = [''intermediate1'', ''intermediate2'', ''authorityCert'']\<rparr>"
  have a: "fst (client_CreateCertificate (client echo_cas) (remote world0) stub_issue_submission)
             = Inr ?certpb"
    by (simp add: run_defs)
  have b: "PemCertificateChain ?certpb = [''intermediate1'', ''intermediate2''] @ [''authorityCert'']"
    by simp
  have l: "parseCertificate stub_env (PemCertificate ?certpb) = Inr (stub_cert ''leaf-uuid'')"
    by (simp add: parseCertificate_def stub_env_def)
  have p: "list_all2 (\<lambda>p crt. parseCertificate stub_env p = Inr crt)
             [''intermediate1'', ''intermediate2'']
             [stub_cert ''intermediate1'', stub_cert ''intermediate2'']"
    by (simp add: parseCertificate_def stub_env_def)
  have s1: "calls (snd (snd (CreateCertificate stub_env echo_cas stub_request world0)))
              = calls world0 @ [Call_CreateCertificate stub_issue_submission]"
    by (simp add: run_defs)
  have s2: "calls (snd (snd (RenewCertificate stub_env echo_cas
                               (as_renew_request stub_request) world0)))
              = calls world0 @ [Call_CreateCertificate stub_issue_submission]"
    by (simp add: run_defs)
  have a': "fst (client_CreateCertificate (client stub_cas) (remote world0) stub_issue_submission)
             = Inr stub_issued"
    by (simp add: run_defs)
  have b': "PemCertificateChain stub_issued = [''intermediate''] @ [''authorityCert'']"
    by (simp add: stub_issued_def)
  have l': "parseCertificate stub_env (PemCertificate stub_issued) = Inr (stub_cert ''leaf'')"
    by (simp add: parseCertificate_def stub_env_def stub_issued_def)
  have p': "list_all2 (\<lambda>p crt. parseCertificate stub_env p = Inr crt)
             [''intermediate''] [stub_cert ''intermediate'']"
    by (simp add: parseCertificate_def stub_env_def)
  have s3: "calls (snd (snd (CreateCertificate stub_env stub_cas stub_request world0)))
              = calls world0 @ [Call_CreateCertificate stub_issue_submission]"
    by (simp add: run_defs)
  from issued_leaf_and_trimmed_chain [OF a b l p, of stub_request "as_renew_request stub_request"] s1 s2
    issued_leaf_and_trimmed_chain [OF a' b' l' p', of stub_request] s3
  show ?thesis
    by blast
qed

text \<open>
  Claim C2. The revocation reason map is defined for exactly the codes 0 to 6, 9 and 10.
  For any other code (7, 8, or a value outside 0..10) \<^verbatim>\<open>RevokeCertificate\<close> fails with
  the invalid-reason error and leaves the world as it was: no remote call is made.
\<close>

theorem revocation_reason_domain:
  "dom revocationCodeMap = {0, 1, 2, 3, 4, 5, 6, 9, 10} \<and>
   (rv_ReasonCode req \<notin> {0, 1, 2, 3, 4, 5, 6, 9, 10} \<longrightarrow>
      RevokeCertificate env c req w =
        (Inl (errors_Errorf ''revokeCertificate 'reasonCode=%d' is invalid or not supported''
                (rv_ReasonCode req)), w))"
proof (intro conjI impI)
  show "dom revocationCodeMap = {0, 1, 2, 3, 4, 5, 6, 9, 10}"
    by (rule revocationCodeMap_dom)
next
  assume "rv_ReasonCode req \<notin> {0, 1, 2, 3, 4, 5, 6, 9, 10}"
  then have "revocationCodeMap (rv_ReasonCode req) = None"
    using revocationCodeMap_dom by (metis domIff)
  then show "RevokeCertificate env c req w =
        (Inl (errors_Errorf ''revokeCertificate 'reasonCode=%d' is invalid or not supported''
                (rv_ReasonCode req)), w)"
    by (simp add: RevokeCertificate_def)
qed

theorem revocation_reason_domain_witness:
  "RevokeCertificate stub_env stub_cas
     \<lparr>rv_Certificate = Some (stub_issued_cert ''id''), rv_ReasonCode = 8, rv_RequestID = ''r''\<rparr>
     world0
   = (Inl (errors_Errorf ''revokeCertificate 'reasonCode=%d' is invalid or not supported'' 8),
      world0)
   \<and> calls world0 = []"
  using revocation_reason_domain [of "\<lparr>rv_Certificate = Some (stub_issued_cert ''id''), rv_ReasonCode = 8,
                  rv_RequestID = ''r''\<rparr>" stub_env stub_cas world0]
  by (simp add: world0_def)

text \<open>
  Claim C3. \<^verbatim>\<open>GetCertificateAuthority\<close> asks for the configured authority when the
  request has no name; it fails when the remote call fails and when the returned chain
  is empty; otherwise its result is the parse of the last element of the chain, whatever
  the earlier elements are.
\<close>

theorem authority_root_is_last_of_chain:
  fixes env :: "'pb env" and c :: "('s, 'pb) CloudCAS" and w :: "('s, 'pb) world"
    and req :: GetCertificateAuthorityRequest
  defines "name \<equiv> (if gca_Name req = [] then certificateAuthority c else gca_Name req)"
  defines "answer \<equiv> fst (client_GetCertificateAuthority (client c) (remote w) name)"
  shows "calls (snd (GetCertificateAuthority env c req w)) =
           calls w @ [Call_GetCertificateAuthority name]
       \<and> (\<forall>e. answer = Inl e \<longrightarrow>
             fst (GetCertificateAuthority env c req w) =
               Inl (errors_Wrap e ''cloudCAS GetCertificateAuthority failed''))
       \<and> (\<forall>resp. answer = Inr resp \<and> PemCaCertificates resp = [] \<longrightarrow>
             fst (GetCertificateAuthority env c req w) =
               Inl (errors_New
                 ''cloudCAS GetCertificateAuthority: PemCACertificate should not be empty''))
       \<and> (\<forall>resp earlier pemRoot.
             answer = Inr resp \<and> PemCaCertificates resp = earlier @ [pemRoot] \<longrightarrow>
             fst (GetCertificateAuthority env c req w) =
               (case parseCertificate env pemRoot of
                  Inl e \<Rightarrow> Inl e
                | Inr root \<Rightarrow> Inr \<lparr>RootCertificate = root\<rparr>))"
  unfolding name_def answer_def
  by (auto simp add: GetCertificateAuthority_def invoke_eq Let_def split: sum.splits)

theorem authority_root_is_last_of_chain_witness:
  "calls (snd (GetCertificateAuthority stub_env stub_cas \<lparr>gca_Name = []\<rparr> world0)) =
     [Call_GetCertificateAuthority ''projects/p/locations/l/certificateAuthorities/ca'']
   \<and> fst (GetCertificateAuthority stub_env stub_cas \<lparr>gca_Name = []\<rparr> world0) =
       Inr \<lparr>RootCertificate = stub_cert ''root''\<rparr>"
proof -
  have a: "fst (client_GetCertificateAuthority (client stub_cas) (remote world0)
             (if gca_Name \<lparr>gca_Name = []\<rparr> = [] then certificateAuthority stub_cas
              else gca_Name \<lparr>gca_Name = []\<rparr>)) = Inr stub_authority"
    by (simp add: stub_cas_def stub_client_def)
  have b: "PemCaCertificates stub_authority = [''intermediate''] @ [''root'']"
    by (simp add: stub_authority_def)
  have p: "parseCertificate stub_env ''root'' = Inr (stub_cert ''root'')"
    by (simp add: parseCertificate_def stub_env_def)
  from authority_root_is_last_of_chain [of stub_env stub_cas "\<lparr>gca_Name = []\<rparr>" world0] a b p show ?thesis
    by (simp add: stub_cas_def world0_def)
qed

text \<open>
  Claim C4. A \<^verbatim>\<open>CreateCertificate\<close>, \<^verbatim>\<open>RenewCertificate\<close> or
  \<^verbatim>\<open>CreateCertificateAuthority\<close> request with a nil template or a zero lifetime fails,
  and the world is unchanged: no method of the remote client is invoked. The error is
  the validation error of the request; for \<^verbatim>\<open>CreateCertificateAuthority\<close> this is so
  for an adapter whose project and location are set, as they are in every adapter that
  \<^verbatim>\<open>New\<close> returns (the missing project or location is reported first otherwise).
\<close>

theorem validation_precedes_remote_calls:
  "(cc_Template rc = None \<or> cc_Lifetime rc = 0 \<longrightarrow>
      (\<exists>e. CreateCertificate env c rc w = (Inl e, cc_Template rc, w) \<and> is_validation_error e))
   \<and> (rn_Template rr = None \<or> rn_Lifetime rr = 0 \<longrightarrow>
      (\<exists>e. RenewCertificate env c rr w = (Inl e, rn_Template rr, w) \<and> is_validation_error e))
   \<and> (cca_Template ra = None \<or> cca_Lifetime ra = 0 \<longrightarrow>
      (\<exists>e. CreateCertificateAuthority env c ra w = (Inl e, cca_Template ra, w)
           \<and> (project c \<noteq> [] \<and> location c \<noteq> [] \<longrightarrow> is_validation_error e)))"
proof (intro conjI impI)
  assume "cc_Template rc = None \<or> cc_Lifetime rc = 0"
  then show "\<exists>e. CreateCertificate env c rc w = (Inl e, cc_Template rc, w) \<and> is_validation_error e"
    by (cases "cc_Template rc") (auto simp add: CreateCertificate_def is_validation_error_def)
next
  assume "rn_Template rr = None \<or> rn_Lifetime rr = 0"
  then show "\<exists>e. RenewCertificate env c rr w = (Inl e, rn_Template rr, w) \<and> is_validation_error e"
    by (cases "rn_Template rr") (auto simp add: RenewCertificate_def is_validation_error_def)
next
  assume "cca_Template ra = None \<or> cca_Lifetime ra = 0"
  then show "\<exists>e. CreateCertificateAuthority env c ra w = (Inl e, cca_Template ra, w)
           \<and> (project c \<noteq> [] \<and> location c \<noteq> [] \<longrightarrow> is_validation_error e)"
    by (cases "cca_Template ra") (auto simp add: CreateCertificateAuthority_def is_validation_error_def)
qed

theorem validation_precedes_remote_calls_witness:
  "fst (CreateCertificate stub_env stub_cas
          \<lparr>cc_Template = None, cc_Lifetime = 3600, cc_RequestID = ''r''\<rparr> world0)
     = Inl (errors_New ''createCertificateRequest `template` cannot be nil'')
   \<and> snd (snd (CreateCertificate stub_env stub_cas
          \<lparr>cc_Template = None, cc_Lifetime = 3600, cc_RequestID = ''r''\<rparr> world0)) = world0
   \<and> fst (RenewCertificate stub_env stub_cas
          \<lparr>rn_Template = Some stub_template, rn_Lifetime = 0, rn_RequestID = ''r''\<rparr> world0)
     = Inl (errors_New ''renewCertificateRequest `lifetime` cannot be 0'')
   \<and> snd (snd (RenewCertificate stub_env stub_cas
          \<lparr>rn_Template = Some stub_template, rn_Lifetime = 0, rn_RequestID = ''r''\<rparr> world0)) = world0
   \<and> fst (CreateCertificateAuthority stub_env stub_cas
          (stub_authority_request\<lparr>cca_Lifetime := 0\<rparr>) world0)
     = Inl (errors_New ''createCertificateAuthorityRequest `lifetime` cannot be 0'')
   \<and> snd (snd (CreateCertificateAuthority stub_env stub_cas
          (stub_authority_request\<lparr>cca_Lifetime := 0\<rparr>) world0)) = world0"
  using validation_precedes_remote_calls [of "\<lparr>cc_Template = None, cc_Lifetime = 3600, cc_RequestID = ''r''\<rparr>"
               stub_env stub_cas world0
               "\<lparr>rn_Template = Some stub_template, rn_Lifetime = 0, rn_RequestID = ''r''\<rparr>"
               "stub_authority_request\<lparr>cca_Lifetime := 0\<rparr>"]
  by (auto simp add: CreateCertificate_def RenewCertificate_def CreateCertificateAuthority_def
        stub_authority_request_def stub_cas_def)

text \<open>
  Claim C5. For the same template, lifetime and request identifier, in the same world
  (so with the same fresh identifier and the same behaviour of the remote client),
  \<^verbatim>\<open>RenewCertificate\<close> does what \<^verbatim>\<open>CreateCertificate\<close> does: the same checks in the
  same order (their messages name the request), the same template, calls and state
  afterwards, the same error past the checks, and the same certificate and chain.
\<close>

theorem renew_is_reissue:
  "snd (RenewCertificate env c (as_renew_request req) w) = snd (CreateCertificate env c req w)
   \<and> (cc_Template req = None \<longrightarrow>
        fst (CreateCertificate env c req w)
          = Inl (errors_New ''createCertificateRequest `template` cannot be nil'')
        \<and> fst (RenewCertificate env c (as_renew_request req) w)
          = Inl (errors_New ''renewCertificateRequest `template` cannot be nil''))
   \<and> (cc_Template req \<noteq> None \<and> cc_Lifetime req = 0 \<longrightarrow>
        fst (CreateCertificate env c req w)
          = Inl (errors_New ''createCertificateRequest `lifetime` cannot be 0'')
        \<and> fst (RenewCertificate env c (as_renew_request req) w)
          = Inl (errors_New ''renewCertificateRequest `lifetime` cannot be 0''))
   \<and> (cc_Template req \<noteq> None \<and> cc_Lifetime req \<noteq> 0 \<longrightarrow>
        fst (RenewCertificate env c (as_renew_request req) w)
          = map_sum id as_renew_response (fst (CreateCertificate env c req w)))"
  by (auto simp add: CreateCertificate_def RenewCertificate_def as_renew_request_def
        as_renew_response_def split: option.splits prod.splits sum.splits)

theorem renew_is_reissue_witness:
  "fst (RenewCertificate stub_env stub_cas
          \<lparr>rn_Template = Some stub_template, rn_Lifetime = 3600, rn_RequestID = ''r''\<rparr> world0)
     = map_sum id as_renew_response
         (fst (CreateCertificate stub_env stub_cas
            \<lparr>cc_Template = Some stub_template, cc_Lifetime = 3600, cc_RequestID = ''r''\<rparr> world0))
   \<and> snd (RenewCertificate stub_env stub_cas
          \<lparr>rn_Template = Some stub_template, rn_Lifetime = 3600, rn_RequestID = ''r''\<rparr> world0)
     = snd (CreateCertificate stub_env stub_cas
            \<lparr>cc_Template = Some stub_template, cc_Lifetime = 3600, cc_RequestID = ''r''\<rparr> world0)
   \<and> fst (RenewCertificate stub_env stub_cas
          \<lparr>rn_Template = Some stub_template, rn_Lifetime = 3600, rn_RequestID = ''r''\<rparr> world0)
     = Inr \<lparr>rn_Certificate = stub_cert ''leaf'',
            rn_CertificateChain = [stub_cert ''intermediate'']\<rparr>"
proof -
  have v: "fst (RenewCertificate stub_env stub_cas
          \<lparr>rn_Template = Some stub_template, rn_Lifetime = 3600, rn_RequestID = ''r''\<rparr> world0)
     = Inr \<lparr>rn_Certificate = stub_cert ''leaf'',
            rn_CertificateChain = [stub_cert ''intermediate'']\<rparr>"
    by (simp add: stub_defs op_defs Let_def)
  from renew_is_reissue [of stub_env stub_cas
        "\<lparr>cc_Template = Some stub_template, cc_Lifetime = 3600, cc_RequestID = ''r''\<rparr>" world0]
    v
  show ?thesis
    by (simp add: as_renew_request_def)
qed

text \<open>
  Claim C6 asks for at most one correlation extension on any template passed to the
  remote API. \<^verbatim>\<open>createCertificate\<close> removes the extension before it appends a new one;
  \<^verbatim>\<open>CreateCertificateAuthority\<close> appends without removing, and writes to the template of
  the caller. Creating an authority twice from one request (the second call sees the
  template as the first left it) submits a template with two correlation extensions,
  where issuing a certificate from a template that carries one leaves exactly one.
\<close>

theorem authority_template_accumulates_extensions:
  "fst (snd (CreateCertificateAuthority stub_env stub_cas stub_authority_request world0))
     = Some (stub_template\<lparr>ExtraExtensions := [stub_extension ''my-ca'']\<rparr>)
   \<and> calls (snd (snd (CreateCertificateAuthority stub_env stub_cas
        (stub_authority_request
           \<lparr>cca_Template :=
              fst (snd (CreateCertificateAuthority stub_env stub_cas
                          stub_authority_request world0))\<rparr>)
        (snd (snd (CreateCertificateAuthority stub_env stub_cas
                     stub_authority_request world0))))))
     = [Call_CreateCertificateAuthority (stub_authority_submission [stub_extension ''my-ca'']),
        Call_Wait ''operation'',
        Call_CreateCertificateAuthority
          (stub_authority_submission [stub_extension ''my-ca'', stub_extension ''my-ca'']),
        Call_Wait ''operation'']
   \<and> count_cas_extensions (the (fst (snd (CreateCertificateAuthority stub_env stub_cas
        (stub_authority_request
           \<lparr>cca_Template :=
              fst (snd (CreateCertificateAuthority stub_env stub_cas
                          stub_authority_request world0))\<rparr>)
        (snd (snd (CreateCertificateAuthority stub_env stub_cas
                     stub_authority_request world0))))))) = 2
   \<and> count_cas_extensions (the (fst (snd (CreateCertificate stub_env stub_cas
        \<lparr>cc_Template = Some stub_template_tagged, cc_Lifetime = 3600, cc_RequestID = ''r''\<rparr>
        world0)))) = 1"
proof -
  have two: "count_cas_extensions
               (stub_template\<lparr>ExtraExtensions :=
                  [stub_extension ''my-ca'', stub_extension ''my-ca'']\<rparr>) = 2"
    by (simp add: count_cas_extensions_def is_cas_extension_def stub_extension_def)
  have one: "count_cas_extensions
               (stub_template\<lparr>ExtraExtensions := [stub_extension ''uuid'']\<rparr>) = 1"
    by (simp add: count_cas_extensions_def is_cas_extension_def stub_extension_def)
  show ?thesis
    apply (simp only: first_authority_run second_authority_run CreateCertificate_tagged
          fst_conv snd_conv option.sel two one simp_thms)
    apply simp
    done
qed

text \<open>
  Claim C7. \<^verbatim>\<open>normalizeCertificateAuthorityName\<close> maps every character (rune) outside
  \<^verbatim>\<open>[A-Za-z0-9_-]\<close> to a hyphen, leaves every character inside the set unchanged, and
  is idempotent.
\<close>

theorem normalize_name_charset_idempotent:
  "normalizeCertificateAuthorityName s
     = map (\<lambda>r. if in_name_charset r then char_of (nat r) else CHR ''-'') (runes s)
   \<and> normalizeCertificateAuthorityName (normalizeCertificateAuthorityName s)
     = normalizeCertificateAuthorityName s"
proof
  have "char_of (nat (normalizeRune r)) = (if in_name_charset r then char_of (nat r) else CHR ''-'')"
    for r
    by (simp add: normalizeRune_eq char_of_hyphen)
  then show "normalizeCertificateAuthorityName s
     = map (\<lambda>r. if in_name_charset r then char_of (nat r) else CHR ''-'') (runes s)"
    by (simp add: normalize_runes)
next
  show "normalizeCertificateAuthorityName (normalizeCertificateAuthorityName s)
     = normalizeCertificateAuthorityName s"
    by (simp only: normalize_runes [of s] normalize_fixed)
qed

text \<open>
  Claim C8. With is-creator false, \<^verbatim>\<open>New\<close> fails when the certificate authority
  identifier is empty and when it does not match \<^verbatim>\<open>caRegexp\<close>, that is, when it is not
  of the form projects/p/locations/l/certificateAuthorities/n with non-empty components
  free of slashes. When it is of that form, the result is that of creating the client,
  and the adapter has the project and the location of the options, or p and l where the
  options leave them empty.
\<close>

theorem new_requires_resource_name:
  assumes "\<not> opt_IsCreator opts"
  shows "(opt_CertificateAuthority opts = [] \<longrightarrow>
            New ncl opts = Inl (errors_New ''cloudCAS 'certificateAuthority' cannot be empty''))
       \<and> (opt_CertificateAuthority opts \<noteq> []
            \<and> \<not> caRegexp_MatchString (opt_CertificateAuthority opts) \<longrightarrow>
            New ncl opts = Inl (errors_New
              ''cloudCAS 'certificateAuthority' is not valid certificate authority resource''))
       \<and> (caRegexp_MatchString (opt_CertificateAuthority opts) \<longleftrightarrow>
            (\<exists>p l n. opt_CertificateAuthority opts
                 = ''projects/'' @ p @ ''/locations/'' @ l @ ''/certificateAuthorities/'' @ n
               \<and> is_segment p \<and> is_segment l \<and> is_segment n))
       \<and> (\<forall>p l n. opt_CertificateAuthority opts
                 = ''projects/'' @ p @ ''/locations/'' @ l @ ''/certificateAuthorities/'' @ n
               \<and> is_segment p \<and> is_segment l \<and> is_segment n \<longrightarrow>
            New ncl opts =
              (case ncl (opt_CredentialsFile opts) of
                 Inl e \<Rightarrow> Inl e
               | Inr cl \<Rightarrow>
                   Inr \<lparr>client = cl,
                        certificateAuthority = opt_CertificateAuthority opts,
                        project = (if opt_Project opts = [] then p else opt_Project opts),
                        location = (if opt_Location opts = [] then l else opt_Location opts)\<rparr>))"
proof (intro conjI impI allI)
  assume "opt_CertificateAuthority opts = []"
  then show "New ncl opts = Inl (errors_New ''cloudCAS 'certificateAuthority' cannot be empty'')"
    using assms by (simp add: New_def)
next
  assume "opt_CertificateAuthority opts \<noteq> []
            \<and> \<not> caRegexp_MatchString (opt_CertificateAuthority opts)"
  then show "New ncl opts = Inl (errors_New
              ''cloudCAS 'certificateAuthority' is not valid certificate authority resource'')"
    using assms by (simp add: New_def)
next
  show "caRegexp_MatchString (opt_CertificateAuthority opts) \<longleftrightarrow>
            (\<exists>p l n. opt_CertificateAuthority opts
                 = ''projects/'' @ p @ ''/locations/'' @ l @ ''/certificateAuthorities/'' @ n
               \<and> is_segment p \<and> is_segment l \<and> is_segment n)"
    by (rule caRegexp_MatchString_iff)
next
  fix p l n
  assume "opt_CertificateAuthority opts
                 = ''projects/'' @ p @ ''/locations/'' @ l @ ''/certificateAuthorities/'' @ n
               \<and> is_segment p \<and> is_segment l \<and> is_segment n"
  then show "New ncl opts =
              (case ncl (opt_CredentialsFile opts) of
                 Inl e \<Rightarrow> Inl e
               | Inr cl \<Rightarrow>
                   Inr \<lparr>client = cl,
                        certificateAuthority = opt_CertificateAuthority opts,
                        project = (if opt_Project opts = [] then p else opt_Project opts),
                        location = (if opt_Location opts = [] then l else opt_Location opts)\<rparr>)"
    using New_matched [OF assms] by blast
qed

theorem new_requires_resource_name_witness:
  "New (\<lambda>f. Inr stub_client) stub_options = Inr stub_cas
   \<and> New (\<lambda>f. Inr stub_client) (stub_options\<lparr>opt_CertificateAuthority := ''projects/p''\<rparr>)
       = Inl (errors_New
           ''cloudCAS 'certificateAuthority' is not valid certificate authority resource'')"
proof -
  have c: "\<not> opt_IsCreator stub_options"
    by (simp add: stub_options_def)
  have c': "\<not> opt_IsCreator (stub_options\<lparr>opt_CertificateAuthority := ''projects/p''\<rparr>)"
    by (simp add: stub_options_def)
  have g: "opt_CertificateAuthority stub_options
             = ''projects/'' @ ''p'' @ ''/locations/'' @ ''l'' @ ''/certificateAuthorities/'' @ ''ca''
           \<and> is_segment ''p'' \<and> is_segment ''l'' \<and> is_segment ''ca''"
    by (simp add: stub_options_def is_segment_def)
  have b: "opt_CertificateAuthority (stub_options\<lparr>opt_CertificateAuthority := ''projects/p''\<rparr>) \<noteq> []
           \<and> \<not> caRegexp_MatchString
                 (opt_CertificateAuthority (stub_options\<lparr>opt_CertificateAuthority := ''projects/p''\<rparr>))"
    by (simp add: caRegexp_MatchString_def match_segment_def)
  from new_requires_resource_name [OF c, of "\<lambda>f. Inr stub_client", THEN conjunct2, THEN conjunct2, THEN conjunct2,
            THEN spec, THEN spec, THEN spec, THEN mp, OF g]
  have 1: "New (\<lambda>f. Inr stub_client) stub_options = Inr stub_cas"
    by (simp add: stub_options_def stub_cas_def)
  from new_requires_resource_name [OF c', of "\<lambda>f. Inr stub_client"] b
  have 2: "New (\<lambda>f. Inr stub_client) (stub_options\<lparr>opt_CertificateAuthority := ''projects/p''\<rparr>)
       = Inl (errors_New
           ''cloudCAS 'certificateAuthority' is not valid certificate authority resource'')"
    by blast
  from 1 2 show ?thesis by blast
qed

text \<open>
  Claim C9. When the certificate the remote client returns has an empty PEM chain (and
  a leaf that parses), the slice \<^verbatim>\<open>[:len-1]\<close> in \<^verbatim>\<open>getCertificateAndChain\<close> is out of
  range: the function panics, and so does every create, renew or revoke call whose
  request the client answered with such a certificate; none returns an error value on
  that path.
\<close>

theorem empty_chain_slice_panics:
  assumes "PemCertificateChain certpb = []"
    and "parseCertificate env (PemCertificate certpb) = Inr leaf"
  shows "getCertificateAndChain env certpb
           = Inl (runtime_panic ''slice bounds out of range [:-1]'')
       \<and> (fst (client_CreateCertificate (client c) (remote w) pbReq) = Inr certpb
            \<and> calls (snd (snd (CreateCertificate env c req w)))
                = calls w @ [Call_CreateCertificate pbReq] \<longrightarrow>
          fst (CreateCertificate env c req w)
            = Inl (runtime_panic ''slice bounds out of range [:-1]''))
       \<and> (fst (client_CreateCertificate (client c) (remote w) pbReq) = Inr certpb
            \<and> calls (snd (snd (RenewCertificate env c rreq w)))
                = calls w @ [Call_CreateCertificate pbReq] \<longrightarrow>
          fst (RenewCertificate env c rreq w)
            = Inl (runtime_panic ''slice bounds out of range [:-1]''))
       \<and> (fst (client_RevokeCertificate (client c) (remote w) pbRev) = Inr certpb
            \<and> calls (snd (RevokeCertificate env c vreq w))
                = calls w @ [Call_RevokeCertificate pbRev] \<longrightarrow>
          fst (RevokeCertificate env c vreq w)
            = Inl (runtime_panic ''slice bounds out of range [:-1]''))"
proof -
  have g: "getCertificateAndChain env certpb
             = Inl (runtime_panic ''slice bounds out of range [:-1]'')"
    using assms by (rule getCertificateAndChain_empty)
  show ?thesis
    by (auto simp add: CreateCertificate_sent RenewCertificate_sent RevokeCertificate_sent g)
qed

theorem empty_chain_slice_panics_witness:
  "fst (CreateCertificate stub_env echo_cas_bare stub_request world0)
     = Inl (runtime_panic ''slice bounds out of range [:-1]'')
   \<and> fst (RenewCertificate stub_env echo_cas_bare (as_renew_request stub_request) world0)
     = Inl (runtime_panic ''slice bounds out of range [:-1]'')
   \<and> fst (RevokeCertificate stub_env echo_cas_bare stub_revoke_request world0)
     = Inl (runtime_panic ''slice bounds out of range [:-1]'')"
proof -
  let ?certpb = "\<lparr>PemCertificate = ''leaf-uuid'', PemCertificateChain = []\<rparr>"
  have h1: "PemCertificateChain ?certpb = []"
    by simp
  have h2: "parseCertificate stub_env (PemCertificate ?certpb) = Inr (stub_cert ''leaf-uuid'')"
    by (simp add: parseCertificate_def stub_env_def)
  have a: "fst (client_CreateCertificate (client echo_cas_bare) (remote world0)
                  stub_issue_submission) = Inr ?certpb"
    by (simp add: run_defs)
  have s1: "calls (snd (snd (CreateCertificate stub_env echo_cas_bare stub_request world0)))
              = calls world0 @ [Call_CreateCertificate stub_issue_submission]"
    by (simp add: run_defs)
  have s2: "calls (snd (snd (RenewCertificate stub_env echo_cas_bare
                               (as_renew_request stub_request) world0)))
              = calls world0 @ [Call_CreateCertificate stub_issue_submission]"
    by (simp add: run_defs)
  let ?revpb = "\<lparr>PemCertificate =
                   ''projects/p/locations/l/certificateAuthorities/ca/certificates/id'',
                 PemCertificateChain = []\<rparr>"
  have k1: "PemCertificateChain ?revpb = []"
    by simp
  have k2: "parseCertificate stub_env (PemCertificate ?revpb)
              = Inr (stub_cert ''projects/p/locations/l/certificateAuthorities/ca/certificates/id'')"
    by (simp add: parseCertificate_def stub_env_def)
  have r: "fst (client_RevokeCertificate (client echo_cas_bare) (remote world0)
                  stub_revoke_submission) = Inr ?revpb"
    by (simp add: run_defs)
  have s3: "calls (snd (RevokeCertificate stub_env echo_cas_bare stub_revoke_request world0))
              = calls world0 @ [Call_RevokeCertificate stub_revoke_submission]"
    by (simp add: run_defs revocationCodeMap_def)
  from empty_chain_slice_panics [OF h1 h2, of echo_cas_bare world0 stub_issue_submission
             stub_request "as_renew_request stub_request"] a s1 s2
    empty_chain_slice_panics [OF k1 k2, of echo_cas_bare world0 _ _ _ stub_revoke_submission stub_revoke_request] r s3
  show ?thesis
    by blast
qed

text \<open>
  Claim C10. \<^verbatim>\<open>RevokeCertificate\<close> on a certificate that carries the correlation
  extension, with a value that does not decode, returns the decoding error and leaves
  the world as it was: no revoke request reaches the remote client.
\<close>

theorem revoke_decode_error_before_remote_call:
  assumes "revocationCodeMap (rv_ReasonCode req) = Some reason"
    and "rv_Certificate req = Some crt"
    and "FindCertificateAuthorityExtension crt = Some ext"
    and "asn1_Unmarshal env (ext_Value ext) = Inl e"
  shows "RevokeCertificate env c req w =
           (Inl (errors_Wrap e ''error unmarshaling certificate authority extension''), w)"
  using assms by (simp add: RevokeCertificate_def)

theorem revoke_decode_error_before_remote_call_witness:
  "RevokeCertificate stub_env stub_cas
     \<lparr>rv_Certificate = Some (stub_issued_cert []), rv_ReasonCode = 1, rv_RequestID = ''r''\<rparr>
     world0
   = (Inl (errors_Wrap (errors_New ''asn1: syntax error'')
            ''error unmarshaling certificate authority extension''), world0)
   \<and> calls world0 = []"
proof -
  have h1: "revocationCodeMap (rv_ReasonCode
      \<lparr>rv_Certificate = Some (stub_issued_cert []), rv_ReasonCode = 1, rv_RequestID = ''r''\<rparr>)
      = Some KEY_COMPROMISE"
    by (simp add: revocationCodeMap_def)
  have h2: "rv_Certificate
      \<lparr>rv_Certificate = Some (stub_issued_cert []), rv_ReasonCode = 1, rv_RequestID = ''r''\<rparr>
      = Some (stub_issued_cert [])"
    by simp
  have h3: "FindCertificateAuthorityExtension (stub_issued_cert []) = Some (stub_extension [])"
    by (simp add: FindCertificateAuthorityExtension_def stub_issued_cert_def stub_cert_def
          stub_extension_def is_cas_extension_def)
  have h4: "asn1_Unmarshal stub_env (ext_Value (stub_extension []))
              = Inl (errors_New ''asn1: syntax error'')"
    by (simp add: stub_env_def stub_extension_def)
  from revoke_decode_error_before_remote_call [OF h1 h2 h3 h4, of stub_cas world0] show ?thesis
    by (simp add: world0_def)
qed

end
